theory Spec2Isabelle
  imports Main
begin

section \<open>Strings\<close>

text \<open>
  A Python \<open>str\<close> is modelled as a \<open>string\<close>; a character stands for the code point of
  the same number (0 to 255).  \<open>is_space\<close> is \<open>str.isspace\<close> on these code points, which is
  the set of characters \<open>str.strip()\<close> removes.
\<close>

definition is_space :: "char \<Rightarrow> bool" where
  "is_space c = (c \<in> set [CHR 0x09, CHR 0x0A, CHR 0x0B, CHR 0x0C, CHR 0x0D,
                            CHR 0x1C, CHR 0x1D, CHR 0x1E, CHR 0x1F, CHR 0x20, CHR 0x85, CHR 0xA0])"

definition strip :: "string \<Rightarrow> string" where
  "strip s = rev (dropWhile is_space (rev (dropWhile is_space s)))"

text \<open>\<open>s.split(sep)\<close> for a one-character separator: never the empty list.\<close>

fun split_str :: "char \<Rightarrow> string \<Rightarrow> string list" where
  "split_str sep [] = [[]]"
| "split_str sep (c # cs) =
     (if c = sep then [] # split_str sep cs
      else (case split_str sep cs of [] \<Rightarrow> [[c]] | l # ls \<Rightarrow> (c # l) # ls))"

text \<open>\<open>code.strip().split('\n')[-1]\<close>, line 117 of the server.\<close>

definition last_line :: "string \<Rightarrow> string" where
  "last_line code = last (split_str CHR 0x0A (strip code))"

fun digits :: "nat \<Rightarrow> string" where
  "digits n = (if n < 10 then [''0123456789'' ! n]
               else digits (n div 10) @ [''0123456789'' ! (n mod 10)])"

declare digits.simps [simp del]

definition str_int :: "int \<Rightarrow> string" where
  "str_int i = (if i < 0 then CHR ''-'' # digits (nat (- i)) else digits (nat i))"

section \<open>Values, exceptions and JSON documents\<close>

text \<open>
  The values a session namespace can hold.  A data frame is its column names, its rows (one
  cell per column) and the text pandas renders for it; \<open>PObject ty r\<close> is an object of any
  other type, with the name of its type and the text \<open>repr\<close> returns for it (modules and
  built-in functions are such objects).  Floating-point numbers are not modelled.
\<close>

datatype pyval =
    PNone
  | PBool bool
  | PInt int
  | PStr string
  | PList "pyval list"
  | PTuple "pyval list"
  | PDict "(pyval \<times> pyval) list"
  | PDataFrame "string list" "pyval list list" string
  | PObject string string

datatype exc_class =
    SyntaxError | NameError | TypeError | ValueError
  | ImportError | ModuleNotFoundError | FileNotFoundError
  | SystemExit | KeyboardInterrupt
  | OtherException string
  | Unmodelled

text \<open>
  A raised exception: its class and \<open>str(e)\<close>; \<open>CalledProcessError rc out err\<close> is the
  exception \<open>subprocess.run(..., check=True)\<close> raises on a non-zero exit status.
\<close>

datatype pyexc =
    PyExc exc_class string
  | CalledProcessError int string string

text \<open>\<open>except Exception\<close> catches every class but the two that derive from
  \<open>BaseException\<close> only.  \<open>Unmodelled\<close> is no class of Python: the interpreter fragment
  below answers with it where it has no model of what Python does (the call of a built-in
  other than \<open>print\<close> and \<open>exit\<close>, a namespace whose \<open>__builtins__\<close> is not the builtins
  module).  It is kept outside \<open>Exception\<close>, so that the handler derives no response from
  it.\<close>

fun derives_Exception :: "pyexc \<Rightarrow> bool" where
  "derives_Exception (PyExc SystemExit m) = False"
| "derives_Exception (PyExc KeyboardInterrupt m) = False"
| "derives_Exception (PyExc Unmodelled m) = False"
| "derives_Exception e = True"

datatype json =
    JNull
  | JBool bool
  | JInt int
  | JStr string
  | JArr "json list"
  | JObj "(string \<times> json) list"

text \<open>Truth value of a decoded JSON value (\<open>not code\<close>, \<open>if arguments.get("reset", False)\<close>).\<close>

fun truthy :: "json \<Rightarrow> bool" where
  "truthy JNull = False"
| "truthy (JBool b) = b"
| "truthy (JInt i) = (i \<noteq> 0)"
| "truthy (JStr s) = (s \<noteq> [])"
| "truthy (JArr xs) = (xs \<noteq> [])"
| "truthy (JObj kvs) = (kvs \<noteq> [])"

subsection \<open>\<open>json.dumps\<close>\<close>

text \<open>
  \<open>json.dumps\<close> with its default settings, in two steps: \<open>to_json\<close> is the encoder's view
  of a Python object (tuples become arrays, the keys of a dict are coerced to strings, any
  other object raises \<open>TypeError\<close>), \<open>render\<close> writes the document as text
  (\<open>ensure_ascii\<close>, separators \<open>", "\<close> and \<open>": "\<close>).
\<close>

fun json_key :: "pyval \<Rightarrow> pyexc + string" where
  "json_key (PStr s) = Inr s"
| "json_key (PInt i) = Inr (str_int i)"
| "json_key (PBool b) = Inr (if b then ''true'' else ''false'')"
| "json_key PNone = Inr ''null''"
| "json_key (PList xs) = Inl (PyExc TypeError ''keys must be str, int, float, bool or None, not list'')"
| "json_key (PTuple xs) = Inl (PyExc TypeError ''keys must be str, int, float, bool or None, not tuple'')"
| "json_key (PDict kvs) = Inl (PyExc TypeError ''keys must be str, int, float, bool or None, not dict'')"
| "json_key (PDataFrame cs rs t) = Inl (PyExc TypeError ''keys must be str, int, float, bool or None, not DataFrame'')"
| "json_key (PObject ty r) = Inl (PyExc TypeError (''keys must be str, int, float, bool or None, not '' @ ty))"

fun to_json :: "pyval \<Rightarrow> pyexc + json"
  and to_json_list :: "pyval list \<Rightarrow> pyexc + json list"
  and to_json_items :: "(pyval \<times> pyval) list \<Rightarrow> pyexc + (string \<times> json) list" where
  "to_json PNone = Inr JNull"
| "to_json (PBool b) = Inr (JBool b)"
| "to_json (PInt i) = Inr (JInt i)"
| "to_json (PStr s) = Inr (JStr s)"
| "to_json (PList xs) = (case to_json_list xs of Inl e \<Rightarrow> Inl e | Inr js \<Rightarrow> Inr (JArr js))"
| "to_json (PTuple xs) = (case to_json_list xs of Inl e \<Rightarrow> Inl e | Inr js \<Rightarrow> Inr (JArr js))"
| "to_json (PDict kvs) = (case to_json_items kvs of Inl e \<Rightarrow> Inl e | Inr js \<Rightarrow> Inr (JObj js))"
| "to_json (PDataFrame cs rs t) =
     Inl (PyExc TypeError ''Object of type DataFrame is not JSON serializable'')"
| "to_json (PObject ty r) =
     Inl (PyExc TypeError (''Object of type '' @ ty @ '' is not JSON serializable''))"
| "to_json_list [] = Inr []"
| "to_json_list (x # xs) =
     (case to_json x of Inl e \<Rightarrow> Inl e
      | Inr j \<Rightarrow> (case to_json_list xs of Inl e \<Rightarrow> Inl e | Inr js \<Rightarrow> Inr (j # js)))"
| "to_json_items [] = Inr []"
| "to_json_items (kv # kvs) =
     (case json_key (fst kv) of Inl e \<Rightarrow> Inl e
      | Inr k \<Rightarrow> (case to_json (snd kv) of Inl e \<Rightarrow> Inl e
         | Inr j \<Rightarrow> (case to_json_items kvs of Inl e \<Rightarrow> Inl e | Inr js \<Rightarrow> Inr ((k, j) # js))))"

definition hex4 :: "nat \<Rightarrow> string" where
  "hex4 n = [''0123456789abcdef'' ! (n div 4096 mod 16), ''0123456789abcdef'' ! (n div 256 mod 16),
             ''0123456789abcdef'' ! (n div 16 mod 16), ''0123456789abcdef'' ! (n mod 16)]"

definition json_escape :: "char \<Rightarrow> string" where
  "json_escape c =
     (if c = CHR 0x22 then [CHR 0x5C, CHR 0x22]
      else if c = CHR 0x5C then [CHR 0x5C, CHR 0x5C]
      else if c = CHR 0x0A then [CHR 0x5C, CHR ''n'']
      else if c = CHR 0x0D then [CHR 0x5C, CHR ''r'']
      else if c = CHR 0x09 then [CHR 0x5C, CHR ''t'']
      else if c = CHR 0x08 then [CHR 0x5C, CHR ''b'']
      else if c = CHR 0x0C then [CHR 0x5C, CHR ''f'']
      else if 32 \<le> (of_char c :: nat) \<and> (of_char c :: nat) \<le> 126 then [c]
      else [CHR 0x5C, CHR ''u''] @ hex4 (of_char c))"

definition render_str :: "string \<Rightarrow> string" where
  "render_str s = [CHR 0x22] @ concat (map json_escape s) @ [CHR 0x22]"

fun render :: "json \<Rightarrow> string"
  and render_list :: "json list \<Rightarrow> string"
  and render_items :: "(string \<times> json) list \<Rightarrow> string" where
  "render JNull = ''null''"
| "render (JBool b) = (if b then ''true'' else ''false'')"
| "render (JInt i) = str_int i"
| "render (JStr s) = render_str s"
| "render (JArr xs) = ''['' @ render_list xs @ '']''"
| "render (JObj kvs) = ''{'' @ render_items kvs @ ''}''"
| "render_list [] = []"
| "render_list (x # xs) = render x @ (if xs = [] then [] else '', '' @ render_list xs)"
| "render_items [] = []"
| "render_items (kv # kvs) =
     render_str (fst kv) @ '': '' @ render (snd kv) @ (if kvs = [] then [] else '', '' @ render_items kvs)"

definition json_dumps :: "pyval \<Rightarrow> pyexc + string" where
  "json_dumps v = (case to_json v of Inl e \<Rightarrow> Inl e | Inr j \<Rightarrow> Inr (render j))"

section \<open>The state of the server process\<close>

text \<open>
  What a tool call can read and change: the dictionary \<open>self.global_namespace\<close> (in
  insertion order), the objects \<open>sys.stdout\<close> and \<open>sys.stderr\<close> currently name, the text
  written so far to every stream, the number of \<open>io.StringIO\<close> buffers created, and the
  argument lists handed to \<open>subprocess.run\<close> so far.
\<close>

datatype stream = Stdout | Stderr | StringIO nat

record pystate =
  global_namespace :: "(string \<times> pyval) list"
  sys_stdout :: stream
  sys_stderr :: stream
  written :: "(stream \<times> string) list"
  allocated :: nat
  invocations :: "string list list"

text \<open>\<open>d[k] = v\<close> on a dictionary kept as an association list.\<close>

fun dict_set :: "('k \<times> 'v) list \<Rightarrow> 'k \<Rightarrow> 'v \<Rightarrow> ('k \<times> 'v) list" where
  "dict_set [] k v = [(k, v)]"
| "dict_set (p # ps) k v = (if fst p = k then (k, v) # ps else p # dict_set ps k v)"

definition getvalue :: "pystate \<Rightarrow> stream \<Rightarrow> string" where
  "getvalue s st = (case map_of (written s) st of None \<Rightarrow> [] | Some t \<Rightarrow> t)"

definition write_stream :: "stream \<Rightarrow> string \<Rightarrow> pystate \<Rightarrow> pystate" where
  "write_stream st t s = s\<lparr>written := dict_set (written s) st (getvalue s st @ t)\<rparr>"

text \<open>\<open>io.StringIO()\<close>: a buffer no one has written to.\<close>

definition new_StringIO :: "pystate \<Rightarrow> stream \<times> pystate" where
  "new_StringIO s =
     (StringIO (allocated s),
      s\<lparr>written := dict_set (written s) (StringIO (allocated s)) [], allocated := Suc (allocated s)\<rparr>)"

section \<open>The Python runtime the server calls\<close>

text \<open>
  A computation changes the state and returns a value or raises; \<open>None\<close> is a computation
  that never returns (submitted code may loop forever).
\<close>

type_synonym 'a run = "pystate \<Rightarrow> ((pyexc + 'a) \<times> pystate) option"

datatype completed = CompletedProcess int string string

text \<open>
  The built-ins and library functions of the interpreter that the server calls but does not
  define: \<open>exec(src, self.global_namespace)\<close>, \<open>eval(src, self.global_namespace)\<close>, \<open>repr\<close>,
  \<open>traceback.format_exc()\<close> for the exception being handled,
  \<open>subprocess.run(argv, capture_output=True, text=True, check=True)\<close>, and the two objects
  the namespace is seeded with (\<open>__builtins__\<close> and the module \<open>pandas\<close>).
\<close>

record runtime =
  py_exec :: "string \<Rightarrow> unit run"
  py_eval :: "string \<Rightarrow> pyval run"
  py_repr :: "pyval \<Rightarrow> string"
  format_exc :: "pyexc \<Rightarrow> string"
  subprocess_run :: "string list \<Rightarrow> completed run"
  py_builtins :: pyval
  py_pandas :: pyval

text \<open>\<open>with redirect_stdout(out), redirect_stderr(err): body\<close>.  Each context manager saves
  the current target on entry and puts it back on exit, however the body ends.\<close>

definition redirect :: "stream \<Rightarrow> stream \<Rightarrow> 'a run \<Rightarrow> 'a run" where
  "redirect out err body s =
     (let old_out = sys_stdout s; s1 = s\<lparr>sys_stdout := out\<rparr>;
          old_err = sys_stderr s1; s2 = s1\<lparr>sys_stderr := err\<rparr>
      in case body s2 of
           None \<Rightarrow> None
         | Some (r, s3) \<Rightarrow> Some (r, (s3\<lparr>sys_stderr := old_err\<rparr>)\<lparr>sys_stdout := old_out\<rparr>))"

text \<open>Every call of \<open>subprocess.run\<close> is recorded before the command runs.\<close>

definition run_logged :: "runtime \<Rightarrow> string list \<Rightarrow> completed run" where
  "run_logged rt argv s = subprocess_run rt argv (s\<lparr>invocations := invocations s @ [argv]\<rparr>)"

section \<open>The tool handler\<close>

datatype content = TextContent string

type_synonym response = "(pyexc + content list) \<times> pystate"

text \<open>\<open>return [types.TextContent(type="text", text=json.dumps(doc))]\<close>; an exception of
  \<open>json.dumps\<close> is raised at the \<open>return\<close>.\<close>

definition respond :: "pyval \<Rightarrow> pystate \<Rightarrow> response" where
  "respond doc s = (case json_dumps doc of Inl e \<Rightarrow> (Inl e, s) | Inr t \<Rightarrow> (Inr [TextContent t], s))"

text \<open>Lines 145 to 152: \<open>except Exception as e\<close> around the body of \<open>execute_python\<close>.\<close>

definition except_Exception :: "runtime \<Rightarrow> response \<Rightarrow> response" where
  "except_Exception rt r =
     (case r of
        (Inr cs, s) \<Rightarrow> (Inr cs, s)
      | (Inl e, s) \<Rightarrow>
          if derives_Exception e
          then respond (PDict [(PStr ''error'', PStr (''Error executing code:\<newline>'' @ format_exc rt e))]) s
          else (Inl e, s))"

text \<open>\<open>last_value.to_dict(orient="records")\<close>: one dictionary per row, built from the
  pairs of column name and cell in column order.\<close>

definition record_of :: "string list \<Rightarrow> pyval list \<Rightarrow> pyval" where
  "record_of cs row = PDict (foldl (\<lambda>d kv. dict_set d (fst kv) (snd kv)) [] (zip (map PStr cs) row))"

definition to_dict_records :: "string list \<Rightarrow> pyval list list \<Rightarrow> pyval" where
  "to_dict_records cs rs = PList (map (record_of cs) rs)"

text \<open>Lines 121 to 126.\<close>

definition df_json :: "string list \<Rightarrow> pyval list list \<Rightarrow> pyval" where
  "df_json cs rs =
     PDict [(PStr ''type'', PStr ''dataframe''),
            (PStr ''data'', to_dict_records cs rs),
            (PStr ''columns'', PList (map PStr cs)),
            (PStr ''shape'', PList [PInt (int (length rs)), PInt (int (length cs))])]"

text \<open>Lines 120 to 143: the response for the value of the last line; \<open>result\<close> is the
  dictionary built in lines 111 to 115.\<close>

definition classify :: "runtime \<Rightarrow> (pyval \<times> pyval) list \<Rightarrow> pyval \<Rightarrow> pystate \<Rightarrow> response" where
  "classify rt result last_value s =
     (case last_value of
        PDataFrame cs rs t \<Rightarrow> respond (df_json cs rs) s
      | PList xs \<Rightarrow> respond (PDict (dict_set result (PStr ''result'') last_value)) s
      | PDict kvs \<Rightarrow> respond (PDict (dict_set result (PStr ''result'') last_value)) s
      | _ \<Rightarrow> respond (PDict (dict_set result (PStr ''result'') (PStr (py_repr rt last_value)))) s)"

text \<open>Lines 111 to 115: the dictionary \<open>result\<close> before the last line is evaluated.\<close>

definition result_dict :: "string \<Rightarrow> string \<Rightarrow> (pyval \<times> pyval) list" where
  "result_dict output errors =
     (let result0 = (if output \<noteq> [] then dict_set [] (PStr ''output'') (PStr output) else [])
      in if errors \<noteq> [] then dict_set result0 (PStr ''errors'') (PStr errors) else result0)"

text \<open>Lines 108 to 143: what follows the captured run when it has returned.\<close>

definition after_exec :: "runtime \<Rightarrow> string \<Rightarrow> stream \<Rightarrow> stream \<Rightarrow> pystate \<Rightarrow> response option" where
  "after_exec rt src out err s =
     (let output = getvalue s out;
          errors = getvalue s err;
          result = result_dict output errors
      in case py_eval rt (last_line src) s of
           None \<Rightarrow> None
         | Some (Inl e, s') \<Rightarrow> Some (Inl e, s')
         | Some (Inr last_value, s') \<Rightarrow> Some (classify rt result last_value s'))"

text \<open>Lines 101 to 106: the two buffers and the run of the code under capture.  \<open>exec\<close>
  of an argument that is not a string raises \<open>TypeError\<close>.\<close>

definition exec_code :: "runtime \<Rightarrow> json \<Rightarrow> unit run" where
  "exec_code rt code s =
     (case code of
        JStr src \<Rightarrow> py_exec rt src s
      | _ \<Rightarrow> Some (Inl (PyExc TypeError ''exec() arg 1 must be a string, bytes or code object''), s))"

definition captured_run :: "runtime \<Rightarrow> json \<Rightarrow> pystate \<Rightarrow> ((pyexc + unit) \<times> stream \<times> stream \<times> pystate) option" where
  "captured_run rt code s =
     (let (out, s1) = new_StringIO s; (err, s2) = new_StringIO s1
      in case redirect out err (exec_code rt code) s2 of
           None \<Rightarrow> None
         | Some (r, s3) \<Rightarrow> Some (r, out, err, s3))"

text \<open>Lines 85 to 152.\<close>

definition execute_python :: "runtime \<Rightarrow> (string \<times> json) list \<Rightarrow> pystate \<Rightarrow> response option" where
  "execute_python rt arguments s =
     (case map_of arguments ''code'' of
        None \<Rightarrow> Some (Inl (PyExc ValueError ''Missing code parameter''), s)
      | Some code \<Rightarrow>
          if \<not> truthy code then Some (Inl (PyExc ValueError ''Missing code parameter''), s)
          else if truthy (case map_of arguments ''reset'' of None \<Rightarrow> JBool False | Some r \<Rightarrow> r) then
            Some (Inr [TextContent ''Python session reset. All variables cleared.''],
                  s\<lparr>global_namespace :=
                       dict_set (dict_set [] ''__builtins__'' (py_builtins rt)) ''pd'' (py_pandas rt)\<rparr>)
          else
            (case captured_run rt code s of
               None \<Rightarrow> None
             | Some (Inl e, out, err, s1) \<Rightarrow> Some (except_Exception rt (Inl e, s1))
             | Some (Inr u, out, err, s1) \<Rightarrow>
                 (case code of
                    JStr src \<Rightarrow> map_option (except_Exception rt) (after_exec rt src out err s1)
                  | _ \<Rightarrow> Some (except_Exception rt
                             (Inl (PyExc (OtherException ''AttributeError'') ''object has no attribute 'strip' ''), s1)))))"

text \<open>\<open>re.match("^[A-Za-z0-9][A-Za-z0-9._-]*$", package)\<close>.  In Python's \<open>re\<close>, \<open>$\<close> also
  matches just before a newline that ends the string.\<close>

definition is_alnum :: "char \<Rightarrow> bool" where
  "is_alnum c = (let n = (of_char c :: nat) in
     (48 \<le> n \<and> n \<le> 57) \<or> (65 \<le> n \<and> n \<le> 90) \<or> (97 \<le> n \<and> n \<le> 122))"

definition is_pkg_char :: "char \<Rightarrow> bool" where
  "is_pkg_char c = (is_alnum c \<or> c = CHR ''.'' \<or> c = CHR ''_'' \<or> c = CHR ''-'')"

definition valid_package :: "string \<Rightarrow> bool" where
  "valid_package p =
     (case p of
        [] \<Rightarrow> False
      | c # cs \<Rightarrow> is_alnum c \<and>
          (list_all is_pkg_char cs \<or>
           (case rev cs of [] \<Rightarrow> False | d # ds \<Rightarrow> d = CHR 0x0A \<and> list_all is_pkg_char ds)))"

definition error_doc :: "string \<Rightarrow> pyval" where
  "error_doc msg = PDict [(PStr ''error'', PStr msg)]"

text \<open>Lines 182 to 219: the install command and the import of the base module name.\<close>

definition install_and_import :: "runtime \<Rightarrow> string \<Rightarrow> pystate \<Rightarrow> response option" where
  "install_and_import rt package s =
     (case run_logged rt [''uv'', ''pip'', ''install'', package] s of
        None \<Rightarrow> None
      | Some (Inl e, s1) \<Rightarrow>
          (case e of
             CalledProcessError rc out err \<Rightarrow>
               Some (respond (error_doc (''Failed to install package:\<newline>'' @ err)) s1)
           | PyExc c m \<Rightarrow> Some (Inl e, s1))
      | Some (Inr (CompletedProcess rc out err), s1) \<Rightarrow>
          if rc \<noteq> 0 then Some (respond (error_doc (''Failed to install package: '' @ err)) s1)
          else
            (case py_exec rt (''import '' @ (case split_str CHR 0x5B package of [] \<Rightarrow> [] | b # bs \<Rightarrow> b)) s1 of
               None \<Rightarrow> None
             | Some (Inr u, s2) \<Rightarrow>
                 Some (respond (PDict [(PStr ''success'',
                                        PStr (''Successfully installed and imported '' @ package))]) s2)
             | Some (Inl e, s2) \<Rightarrow>
                 (case e of
                    PyExc c m \<Rightarrow>
                      if c = ImportError \<or> c = ModuleNotFoundError
                      then Some (respond (error_doc (''Package installed but import failed: '' @ m)) s2)
                      else Some (Inl e, s2)
                  | CalledProcessError rc' out' err' \<Rightarrow>
                      Some (respond (error_doc (''Failed to install package:\<newline>'' @ err')) s2))))"

text \<open>Lines 154 to 219.\<close>

definition install_package :: "runtime \<Rightarrow> (string \<times> json) list \<Rightarrow> pystate \<Rightarrow> response option" where
  "install_package rt arguments s =
     (case map_of arguments ''package'' of
        None \<Rightarrow> Some (Inl (PyExc ValueError ''Missing package name''), s)
      | Some package \<Rightarrow>
          if \<not> truthy package then Some (Inl (PyExc ValueError ''Missing package name''), s)
          else
            (case run_logged rt [''uv'', ''pip'', ''install'', ''pip''] s of
               None \<Rightarrow> None
             | Some (Inl e, s1) \<Rightarrow>
                 (case e of
                    CalledProcessError rc out err \<Rightarrow>
                      Some (respond (error_doc (''Failed to install pip: '' @ err)) s1)
                  | PyExc c m \<Rightarrow> Some (Inl e, s1))
             | Some (Inr p, s1) \<Rightarrow>
                 (case package of
                    JStr pkg \<Rightarrow>
                      if \<not> valid_package pkg
                      then Some (respond (error_doc (''Invalid package name: '' @ pkg)) s1)
                      else install_and_import rt pkg s1
                  | _ \<Rightarrow> Some (Inl (PyExc TypeError ''expected string or bytes-like object''), s1))))"

text \<open>Lines 221 to 232.\<close>

definition list_variables :: "runtime \<Rightarrow> pystate \<Rightarrow> response option" where
  "list_variables rt s =
     Some (respond
       (PDict [(PStr ''variables'',
                PDict (map (\<lambda>kv. (PStr (fst kv), PStr (py_repr rt (snd kv))))
                         (filter (\<lambda>kv. \<not> (case fst kv of [] \<Rightarrow> False | c # cs \<Rightarrow> c = CHR ''_'')
                                        \<and> fst kv \<noteq> ''__builtins__'')
                                 (global_namespace s))))]) s)"

text \<open>Lines 79 to 235.  \<open>arguments\<close> is \<open>None\<close> or a dictionary.\<close>

definition handle_call_tool ::
  "runtime \<Rightarrow> string \<Rightarrow> (string \<times> json) list option \<Rightarrow> pystate \<Rightarrow> response option" where
  "handle_call_tool rt name arguments s =
     (case arguments of
        None \<Rightarrow> Some (Inl (PyExc ValueError ''Missing arguments''), s)
      | Some args \<Rightarrow>
          if args = [] then Some (Inl (PyExc ValueError ''Missing arguments''), s)
          else if name = ''execute_python'' then execute_python rt args s
          else if name = ''install_package'' then install_package rt args s
          else if name = ''list_variables'' then list_variables rt s
          else Some (Inl (PyExc ValueError (''Unknown tool: '' @ name)), s))"

section \<open>A fragment of the interpreter\<close>

text \<open>
  \<open>exec\<close>, \<open>eval\<close> and \<open>repr\<close> on a fragment of Python, for running the handler on concrete
  requests.  The fragment: one statement per line, each an assignment \<open>name = expression\<close>,
  an expression, or \<open>if expression:\<close> followed by a block of such one-line statements
  indented by spaces; expressions are built from decimal integers, \<open>True\<close>, \<open>False\<close>, \<open>None\<close>,
  names, \<open>+\<close>, parentheses and calls with one argument, the callee not a constant
  expression (on a constant callee the compiler writes a warning to \<open>sys.stderr\<close>).
  A name resolves in the namespace, then in the builtins module of CPython 3.11 (all of its
  names, with the objects the \<open>site\<close> module adds); of the built-ins, \<open>print\<close> and \<open>exit\<close>
  can be called, and the call of any other is answered by \<open>Unmodelled\<close>.
  On a text outside the fragment the model answers \<open>SyntaxError\<close>, which is Python's answer
  only for a text outside Python's grammar.  The text of a syntax error and the limits of
  the interpreter (digits of an integer, depth of nesting) are not modelled.
\<close>

datatype token = TName string | TNum nat | TPlus | TAssign | TLpar | TRpar | TColon | TBad

definition is_digit :: "char \<Rightarrow> bool" where
  "is_digit c = (48 \<le> (of_char c :: nat) \<and> (of_char c :: nat) \<le> 57)"

definition is_word_char :: "char \<Rightarrow> bool" where
  "is_word_char c = (is_alnum c \<or> c = CHR ''_'')"

text \<open>A maximal run of letters, digits and underscores: a decimal integer (no leading
  zero unless it is all zeros), or a name.\<close>

definition word_token :: "string \<Rightarrow> token" where
  "word_token w =
     (if list_all is_digit w then
        (if w \<noteq> [] \<and> (hd w \<noteq> CHR ''0'' \<or> list_all (\<lambda>c. c = CHR ''0'') w)
         then TNum (foldl (\<lambda>n c. 10 * n + (of_char c - 48)) 0 w) else TBad)
      else if w \<noteq> [] \<and> is_digit (hd w) then TBad
      else TName w)"

definition flush :: "string \<Rightarrow> token list" where
  "flush w = (if w = [] then [] else [word_token w])"

fun tokens_from :: "string \<Rightarrow> string \<Rightarrow> token list" where
  "tokens_from w [] = flush w"
| "tokens_from w (c # cs) =
     (if is_word_char c then tokens_from (w @ [c]) cs
      else flush w @
        (if c = CHR '' '' \<or> c = CHR 0x09 then tokens_from [] cs
         else (if c = CHR ''+'' then TPlus
               else if c = CHR ''='' then TAssign
               else if c = CHR ''('' then TLpar
               else if c = CHR '')'' then TRpar
               else if c = CHR '':'' then TColon
               else TBad) # tokens_from [] cs))"

definition tokens :: "string \<Rightarrow> token list" where
  "tokens line = tokens_from [] line"

datatype expr = Lit pyval | Name string | Add expr expr | Call expr expr

datatype stmt = Assign string expr | Expr expr | If expr "stmt list"

definition py_keywords :: "string list" where
  "py_keywords = [''False'', ''None'', ''True'', ''and'', ''as'', ''assert'', ''async'', ''await'',
     ''break'', ''class'', ''continue'', ''def'', ''del'', ''elif'', ''else'', ''except'',
     ''finally'', ''for'', ''from'', ''global'', ''if'', ''import'', ''in'', ''is'', ''lambda'',
     ''nonlocal'', ''not'', ''or'', ''pass'', ''raise'', ''return'', ''try'', ''while'', ''with'',
     ''yield'']"

text \<open>The compiler replaces \<open>__debug__\<close> by the constant \<open>True\<close>, and refuses an assignment
  to it as it does for the three constants that are keywords.\<close>

definition atom_of_word :: "string \<Rightarrow> expr option" where
  "atom_of_word w =
     (if w = ''True'' \<or> w = ''__debug__'' then Some (Lit (PBool True))
      else if w = ''False'' then Some (Lit (PBool False))
      else if w = ''None'' then Some (Lit PNone)
      else if w \<in> set py_keywords then None
      else Some (Name w))"

text \<open>Recursive descent; the first argument bounds the depth of the descent and is chosen
  by \<open>parse_expr\<close> above what a token list of that length can need
  (\<open>parse_expr_complete\<close> below).\<close>

fun parse_atom :: "nat \<Rightarrow> token list \<Rightarrow> (expr \<times> token list) option"
  and parse_trailers :: "nat \<Rightarrow> expr \<Rightarrow> token list \<Rightarrow> (expr \<times> token list) option"
  and parse_sum :: "nat \<Rightarrow> token list \<Rightarrow> (expr \<times> token list) option"
  and parse_rest :: "nat \<Rightarrow> expr \<Rightarrow> token list \<Rightarrow> (expr \<times> token list) option" where
  "parse_atom 0 ts = None"
| "parse_atom (Suc n) ts =
     (case ts of
        TNum k # r \<Rightarrow> parse_trailers n (Lit (PInt (int k))) r
      | TName w # r \<Rightarrow>
          (case atom_of_word w of None \<Rightarrow> None | Some a \<Rightarrow> parse_trailers n a r)
      | TLpar # r \<Rightarrow>
          (case parse_sum n r of
             Some (e, TRpar # r') \<Rightarrow> parse_trailers n e r'
           | _ \<Rightarrow> None)
      | _ \<Rightarrow> None)"
| "parse_trailers 0 e ts = None"
| "parse_trailers (Suc n) e ts =
     (case ts of
        TLpar # r \<Rightarrow>
          (case parse_sum n r of
             Some (a, TRpar # r') \<Rightarrow> parse_trailers n (Call e a) r'
           | _ \<Rightarrow> None)
      | _ \<Rightarrow> Some (e, ts))"
| "parse_sum 0 ts = None"
| "parse_sum (Suc n) ts =
     (case parse_atom n ts of None \<Rightarrow> None | Some (e, r) \<Rightarrow> parse_rest n e r)"
| "parse_rest 0 e ts = None"
| "parse_rest (Suc n) e ts =
     (case ts of
        TPlus # r \<Rightarrow>
          (case parse_atom n r of None \<Rightarrow> None | Some (b, r') \<Rightarrow> parse_rest n (Add e b) r')
      | _ \<Rightarrow> Some (e, ts))"

text \<open>A constant expression (the compiler folds a sum of constants), and the expressions
  in which no call has one as its callee.\<close>

fun is_constant :: "expr \<Rightarrow> bool" where
  "is_constant (Lit v) = True"
| "is_constant (Name x) = False"
| "is_constant (Add a b) = (is_constant a \<and> is_constant b)"
| "is_constant (Call f a) = False"

fun callees_named :: "expr \<Rightarrow> bool" where
  "callees_named (Lit v) = True"
| "callees_named (Name x) = True"
| "callees_named (Add a b) = (callees_named a \<and> callees_named b)"
| "callees_named (Call f a) = (\<not> is_constant f \<and> callees_named f \<and> callees_named a)"

definition parse_expr :: "token list \<Rightarrow> expr option" where
  "parse_expr ts =
     (case parse_sum (4 * length ts + 4) ts of
        Some (e, []) \<Rightarrow> (if callees_named e then Some e else None)
      | _ \<Rightarrow> None)"

text \<open>The parser of \<open>eval\<close>: one line, leading blanks allowed.\<close>

definition parse_expression :: "string \<Rightarrow> expr option" where
  "parse_expression src = parse_expr (tokens src)"

definition parse_simple :: "token list \<Rightarrow> stmt option" where
  "parse_simple ts =
     (case ts of
        TName x # TAssign # r \<Rightarrow>
          (case atom_of_word x of
             Some (Name y) \<Rightarrow> map_option (Assign y) (parse_expr r)
           | _ \<Rightarrow> None)
      | _ \<Rightarrow> map_option Expr (parse_expr ts))"

text \<open>A line of the module: its indentation (spaces only) and its tokens.\<close>

definition is_blank :: "string \<Rightarrow> bool" where
  "is_blank line = list_all (\<lambda>c. c = CHR '' '' \<or> c = CHR 0x09) line"

definition indent_tokens :: "string \<Rightarrow> nat \<times> token list" where
  "indent_tokens line =
     (let rest = dropWhile (\<lambda>c. c = CHR '' '') line
      in (length (takeWhile (\<lambda>c. c = CHR '' '') line),
          (case rest of c # cs \<Rightarrow> (if c = CHR 0x09 then [TBad] else tokens rest) | [] \<Rightarrow> [])))"

definition parse_header :: "token list \<Rightarrow> expr option" where
  "parse_header ts =
     (case ts of
        TName w # r \<Rightarrow>
          (if w = ''if'' \<and> r \<noteq> [] \<and> last r = TColon then parse_expr (butlast r) else None)
      | _ \<Rightarrow> None)"

definition is_header :: "token list \<Rightarrow> bool" where
  "is_header ts = (case ts of TName w # r \<Rightarrow> w = ''if'' | _ \<Rightarrow> False)"

fun parse_body :: "nat \<Rightarrow> (nat \<times> token list) list \<Rightarrow> stmt list option" where
  "parse_body k [] = Some []"
| "parse_body k (l # ls) =
     (if fst l \<noteq> k then None
      else (case parse_simple (snd l) of
              None \<Rightarrow> None
            | Some st \<Rightarrow> map_option ((#) st) (parse_body k ls)))"

function parse_lines :: "(nat \<times> token list) list \<Rightarrow> stmt list option" where
  "parse_lines [] = Some []"
| "parse_lines (l # ls) =
     (if fst l \<noteq> 0 then None
      else if is_header (snd l) then
        (case (parse_header (snd l), takeWhile (\<lambda>b. 0 < fst b) ls) of
           (Some c, b # bs) \<Rightarrow>
             (case parse_body (fst b) (b # bs) of
                None \<Rightarrow> None
              | Some body \<Rightarrow> map_option ((#) (If c body)) (parse_lines (dropWhile (\<lambda>b. 0 < fst b) ls)))
         | _ \<Rightarrow> None)
      else (case parse_simple (snd l) of
              None \<Rightarrow> None
            | Some st \<Rightarrow> map_option ((#) st) (parse_lines ls)))"
  by pat_completeness auto
termination
  by (relation "measure length") (auto simp: less_Suc_eq_le length_dropWhile_le)

text \<open>The parser of \<open>exec\<close>: the whole text is compiled before any statement runs.\<close>

definition parse_module :: "string \<Rightarrow> stmt list option" where
  "parse_module src =
     parse_lines (map indent_tokens (filter (\<lambda>l. \<not> is_blank l) (split_str CHR 0x0A src)))"

subsection \<open>Evaluation\<close>

definition print_function :: pyval where
  "print_function = PObject ''builtin_function_or_method'' ''<built-in function print>''"

definition exit_function :: pyval where
  "exit_function = PObject ''Quitter'' ''Use exit() or Ctrl-D (i.e. EOF) to exit''"

text \<open>The builtins module of CPython 3.11, as \<open>dir(builtins)\<close> lists it in a process
  started with the \<open>site\<close> module: the built-in functions, the classes, and the entries
  that are neither.\<close>

definition builtin_function_names :: "string list" where
  "builtin_function_names =
    [''__build_class__'', ''__import__'', ''abs'', ''aiter'', ''all'', ''anext'', ''any'',
     ''ascii'', ''bin'', ''breakpoint'', ''callable'', ''chr'', ''compile'', ''delattr'',
     ''dir'', ''divmod'', ''eval'', ''exec'', ''format'', ''getattr'', ''globals'',
     ''hasattr'', ''hash'', ''hex'', ''id'', ''input'', ''isinstance'', ''issubclass'',
     ''iter'', ''len'', ''locals'', ''max'', ''min'', ''next'', ''oct'', ''open'', ''ord'',
     ''pow'', ''print'', ''repr'', ''round'', ''setattr'', ''sorted'', ''sum'', ''vars'']"

definition builtin_class_names :: "string list" where
  "builtin_class_names =
    [''ArithmeticError'', ''AssertionError'', ''AttributeError'', ''BaseException'',
     ''BaseExceptionGroup'', ''BlockingIOError'', ''BrokenPipeError'', ''BufferError'',
     ''BytesWarning'', ''ChildProcessError'', ''ConnectionAbortedError'', ''ConnectionError'',
     ''ConnectionRefusedError'', ''ConnectionResetError'', ''DeprecationWarning'',
     ''EOFError'', ''EncodingWarning'', ''Exception'', ''ExceptionGroup'', ''FileExistsError'',
     ''FileNotFoundError'', ''FloatingPointError'', ''FutureWarning'', ''GeneratorExit'',
     ''ImportError'', ''ImportWarning'', ''IndentationError'', ''IndexError'',
     ''InterruptedError'', ''IsADirectoryError'', ''KeyError'', ''KeyboardInterrupt'',
     ''LookupError'', ''MemoryError'', ''ModuleNotFoundError'', ''NameError'',
     ''NotADirectoryError'', ''NotImplementedError'', ''OSError'', ''OverflowError'',
     ''PendingDeprecationWarning'', ''PermissionError'', ''ProcessLookupError'',
     ''RecursionError'', ''ReferenceError'', ''ResourceWarning'', ''RuntimeError'',
     ''RuntimeWarning'', ''StopAsyncIteration'', ''StopIteration'', ''SyntaxError'',
     ''SyntaxWarning'', ''SystemError'', ''SystemExit'', ''TabError'', ''TimeoutError'',
     ''TypeError'', ''UnboundLocalError'', ''UnicodeDecodeError'', ''UnicodeEncodeError'',
     ''UnicodeError'', ''UnicodeTranslateError'', ''UnicodeWarning'', ''UserWarning'',
     ''ValueError'', ''Warning'', ''ZeroDivisionError'', ''bool'', ''bytearray'', ''bytes'',
     ''classmethod'', ''complex'', ''dict'', ''enumerate'', ''filter'', ''float'',
     ''frozenset'', ''int'', ''list'', ''map'', ''memoryview'', ''object'', ''property'',
     ''range'', ''reversed'', ''set'', ''slice'', ''staticmethod'', ''str'', ''super'',
     ''tuple'', ''type'', ''zip'']"

definition builtins_doc :: string where
  "builtins_doc =
     ''Built-in functions, types, exceptions, and other objects.\<newline>'' @
     ''\<newline>'' @
     ''This module provides direct access to all 'built-in'\<newline>'' @
     ''identifiers of Python; for example, builtins.len is\<newline>'' @
     ''the full name for the built-in function len().\<newline>'' @
     ''\<newline>'' @
     ''This module is not normally accessed explicitly by most\<newline>'' @
     ''applications, but can be useful in modules that provide\<newline>'' @
     ''objects with the same name as a built-in value, but in\<newline>'' @
     ''which the built-in of that name is also needed.''"

definition copyright_text :: string where
  "copyright_text =
     ''Copyright (c) 2001-2023 Python Software Foundation.\<newline>'' @
     ''All Rights Reserved.\<newline>'' @
     ''\<newline>'' @
     ''Copyright (c) 2000 BeOpen.com.\<newline>'' @
     ''All Rights Reserved.\<newline>'' @
     ''\<newline>'' @
     ''Copyright (c) 1995-2001 Corporation for National Research Initiatives.\<newline>'' @
     ''All Rights Reserved.\<newline>'' @
     ''\<newline>'' @
     ''Copyright (c) 1991-1995 Stichting Mathematisch Centrum, Amsterdam.\<newline>'' @
     ''All Rights Reserved.''"

definition credits_text :: string where
  "credits_text =
     ''    Thanks to CWI, CNRI, BeOpen.com, Zope Corporation and a cast of thousands\<newline>'' @
     ''    for supporting Python development.  See www.python.org for more information.''"

definition builtin_function :: "string \<Rightarrow> pyval" where
  "builtin_function n = PObject ''builtin_function_or_method'' (''<built-in function '' @ n @ ''>'')"

definition builtin_class :: "string \<Rightarrow> pyval" where
  "builtin_class n = PObject ''type'' (''<class '' @ [CHR 0x27] @ n @ [CHR 0x27] @ ''>'')"

definition builtin_table :: "(string \<times> pyval) list" where
  "builtin_table =
     map (\<lambda>n. (n, builtin_function n)) builtin_function_names @
     map (\<lambda>n. (n, builtin_class n)) builtin_class_names @
     [(''Ellipsis'', PObject ''ellipsis'' ''Ellipsis''),
      (''EnvironmentError'', builtin_class ''OSError''),
      (''False'', PBool False),
      (''IOError'', builtin_class ''OSError''),
      (''None'', PNone),
      (''NotImplemented'', PObject ''NotImplementedType'' ''NotImplemented''),
      (''True'', PBool True),
      (''__debug__'', PBool True),
      (''__doc__'', PStr builtins_doc),
      (''__loader__'', builtin_class ''_frozen_importlib.BuiltinImporter''),
      (''__name__'', PStr ''builtins''),
      (''__package__'', PStr []),
      (''__spec__'', PObject ''ModuleSpec''
         (''ModuleSpec(name='builtins', loader=<class '_frozen_importlib.BuiltinImporter'>, '' @
          ''origin='built-in')'')),
      (''copyright'', PObject ''_Printer'' copyright_text),
      (''credits'', PObject ''_Printer'' credits_text),
      (''exit'', exit_function),
      (''help'', PObject ''_Helper''
         ''Type help() for interactive help, or help(object) for help about object.''),
      (''license'', PObject ''_Printer'' ''Type license() to see the full license text''),
      (''quit'', PObject ''Quitter'' ''Use quit() or Ctrl-D (i.e. EOF) to exit'')]"

definition builtins_module :: pyval where
  "builtins_module = PObject ''module'' ''<module 'builtins' (built-in)>''"

definition pandas_module :: pyval where
  "pandas_module =
     PObject ''module'' ''<module 'pandas' from '/usr/lib/python3/site-packages/pandas/__init__.py'>''"

fun type_name :: "pyval \<Rightarrow> string" where
  "type_name PNone = ''NoneType''"
| "type_name (PBool b) = ''bool''"
| "type_name (PInt i) = ''int''"
| "type_name (PStr s) = ''str''"
| "type_name (PList xs) = ''list''"
| "type_name (PTuple xs) = ''tuple''"
| "type_name (PDict kvs) = ''dict''"
| "type_name (PDataFrame cs rs t) = ''DataFrame''"
| "type_name (PObject ty r) = ty"

definition hex2 :: "nat \<Rightarrow> string" where
  "hex2 n = [''0123456789abcdef'' ! (n div 16 mod 16), ''0123456789abcdef'' ! (n mod 16)]"

text \<open>\<open>repr\<close> of a string: single quotes, unless the text has a single quote and no double
  quote.\<close>

definition repr_char :: "char \<Rightarrow> char \<Rightarrow> string" where
  "repr_char q c =
     (let n = (of_char c :: nat) in
      if c = CHR 0x5C then [CHR 0x5C, CHR 0x5C]
      else if c = q then [CHR 0x5C, q]
      else if c = CHR 0x0A then [CHR 0x5C, CHR ''n'']
      else if c = CHR 0x0D then [CHR 0x5C, CHR ''r'']
      else if c = CHR 0x09 then [CHR 0x5C, CHR ''t'']
      else if n < 32 \<or> (127 \<le> n \<and> n \<le> 160) \<or> n = 173 then [CHR 0x5C, CHR ''x''] @ hex2 n
      else [c])"

definition repr_str :: "string \<Rightarrow> string" where
  "repr_str s =
     (let q = (if CHR 0x27 \<in> set s \<and> CHR 0x22 \<notin> set s then CHR 0x22 else CHR 0x27)
      in [q] @ concat (map (repr_char q) s) @ [q])"

text \<open>\<open>sep.join(parts)\<close>.\<close>

fun join :: "string \<Rightarrow> string list \<Rightarrow> string" where
  "join sep [] = []"
| "join sep [x] = x"
| "join sep (x # y # ys) = x @ sep @ join sep (y # ys)"

fun mini_repr :: "pyval \<Rightarrow> string" where
  "mini_repr PNone = ''None''"
| "mini_repr (PBool b) = (if b then ''True'' else ''False'')"
| "mini_repr (PInt i) = str_int i"
| "mini_repr (PStr s) = repr_str s"
| "mini_repr (PList xs) = ''['' @ join '', '' (map mini_repr xs) @ '']''"
| "mini_repr (PTuple xs) =
     ''('' @ join '', '' (map mini_repr xs) @ (if length xs = 1 then '','' else []) @ '')''"
| "mini_repr (PDict kvs) =
     ''{'' @ join '', '' (map (\<lambda>(k, v). mini_repr k @ '': '' @ mini_repr v) kvs) @ ''}''"
| "mini_repr (PDataFrame cs rs t) = t"
| "mini_repr (PObject ty r) = r"

text \<open>The types of the objects of the builtins module and of modules: none of them
  defines \<open>+\<close>, a truth value or a \<open>str\<close> of its own.  An object of another type is opaque
  to the fragment: what \<open>+\<close>, \<open>bool\<close> and \<open>str\<close> do with it is not modelled.\<close>

definition plain_types :: "string list" where
  "plain_types = [''builtin_function_or_method'', ''type'', ''module'', ''Quitter'', ''_Printer'',
     ''_Helper'', ''ModuleSpec'', ''NotImplementedType'', ''ellipsis'']"

definition opaque :: "pyval \<Rightarrow> bool" where
  "opaque v = (case v of PObject ty r \<Rightarrow> ty \<notin> set plain_types | _ \<Rightarrow> False)"

text \<open>\<open>str(v)\<close>, for a value that is not opaque.\<close>

definition py_str :: "pyval \<Rightarrow> string" where
  "py_str v = (case v of PStr s \<Rightarrow> s | _ \<Rightarrow> mini_repr v)"

text \<open>A name is looked up in the namespace, then in the builtins module when that is what
  the slot \<open>__builtins__\<close> of the namespace holds.  With the slot missing or holding
  anything else, Python resolves the name in whatever the slot held when the run started:
  not modelled.\<close>

definition lookup :: "string \<Rightarrow> pystate \<Rightarrow> pyexc + pyval" where
  "lookup x s =
     (case map_of (global_namespace s) x of
        Some v \<Rightarrow> Inr v
      | None \<Rightarrow>
          (if map_of (global_namespace s) ''__builtins__'' = Some builtins_module then
             (case map_of builtin_table x of
                Some b \<Rightarrow> Inr b
              | None \<Rightarrow>
                  Inl (PyExc NameError (''name '' @ [CHR 0x27] @ x @ [CHR 0x27] @ '' is not defined'')))
           else Inl (PyExc Unmodelled ''__builtins__'')))"

definition as_int :: "pyval \<Rightarrow> int option" where
  "as_int v = (case v of PInt i \<Rightarrow> Some i | PBool b \<Rightarrow> Some (if b then 1 else 0) | _ \<Rightarrow> None)"

definition concat_error :: "string \<Rightarrow> pyval \<Rightarrow> pyexc" where
  "concat_error ty w =
     PyExc TypeError (''can only concatenate '' @ ty @ '' (not '' @ [CHR 0x22] @ type_name w
                      @ [CHR 0x22] @ '') to '' @ ty)"

text \<open>\<open>v + w\<close>; with a frame or an opaque object on either side it is not modelled.\<close>

definition frame_or_opaque :: "pyval \<Rightarrow> bool" where
  "frame_or_opaque v = (case v of PDataFrame cs rs t \<Rightarrow> True | _ \<Rightarrow> opaque v)"

definition add :: "pyval \<Rightarrow> pyval \<Rightarrow> pyexc + pyval" where
  "add v w =
     (case (as_int v, as_int w) of
        (Some i, Some j) \<Rightarrow> Inr (PInt (i + j))
      | _ \<Rightarrow>
        if frame_or_opaque v \<or> frame_or_opaque w then Inl (PyExc Unmodelled ''+'')
        else
        (case v of
           PStr a \<Rightarrow> (case w of PStr b \<Rightarrow> Inr (PStr (a @ b)) | _ \<Rightarrow> Inl (concat_error ''str'' w))
         | PList a \<Rightarrow> (case w of PList b \<Rightarrow> Inr (PList (a @ b)) | _ \<Rightarrow> Inl (concat_error ''list'' w))
         | PTuple a \<Rightarrow> (case w of PTuple b \<Rightarrow> Inr (PTuple (a @ b)) | _ \<Rightarrow> Inl (concat_error ''tuple'' w))
         | _ \<Rightarrow> Inl (PyExc TypeError (''unsupported operand type(s) for +: '' @ [CHR 0x27] @ type_name v
                       @ [CHR 0x27] @ '' and '' @ [CHR 0x27] @ type_name w @ [CHR 0x27]))))"

text \<open>The values that cannot be called: \<open>None\<close>, Booleans, integers, strings, lists,
  tuples, dicts and frames, and the objects of the four types listed.  Any other object may
  be callable.\<close>

definition not_callable :: "pyval \<Rightarrow> bool" where
  "not_callable f =
     (case f of
        PObject ty r \<Rightarrow> ty \<in> set [''module'', ''ellipsis'', ''NotImplementedType'', ''ModuleSpec'']
      | _ \<Rightarrow> True)"

text \<open>A call: \<open>print(v)\<close> writes \<open>str(v)\<close> and a newline to the stream \<open>sys.stdout\<close> names
  and returns \<open>None\<close>; \<open>exit(v)\<close> raises \<open>SystemExit(v)\<close>; the call of any other object
  that may be callable is not modelled.\<close>

definition call :: "pyval \<Rightarrow> pyval \<Rightarrow> pystate \<Rightarrow> (pyexc + pyval) \<times> pystate" where
  "call f v s =
     (if (f = print_function \<or> f = exit_function) \<and> opaque v then (Inl (PyExc Unmodelled ''str''), s)
      else if f = print_function then (Inr PNone, write_stream (sys_stdout s) (py_str v @ [CHR 0x0A]) s)
      else if f = exit_function then (Inl (PyExc SystemExit (py_str v)), s)
      else if not_callable f then
        (Inl (PyExc TypeError ([CHR 0x27] @ type_name f @ [CHR 0x27] @ '' object is not callable'')), s)
      else (Inl (PyExc Unmodelled ''call''), s))"

fun eval_expr :: "expr \<Rightarrow> pystate \<Rightarrow> (pyexc + pyval) \<times> pystate" where
  "eval_expr (Lit v) s = (Inr v, s)"
| "eval_expr (Name x) s = (lookup x s, s)"
| "eval_expr (Add a b) s =
     (case eval_expr a s of
        (Inl e, s1) \<Rightarrow> (Inl e, s1)
      | (Inr v, s1) \<Rightarrow>
          (case eval_expr b s1 of
             (Inl e, s2) \<Rightarrow> (Inl e, s2)
           | (Inr w, s2) \<Rightarrow> (add v w, s2)))"
| "eval_expr (Call f a) s =
     (case eval_expr f s of
        (Inl e, s1) \<Rightarrow> (Inl e, s1)
      | (Inr g, s1) \<Rightarrow>
          (case eval_expr a s1 of
             (Inl e, s2) \<Rightarrow> (Inl e, s2)
           | (Inr v, s2) \<Rightarrow> call g v s2))"

fun truth :: "pyval \<Rightarrow> pyexc + bool" where
  "truth PNone = Inr False"
| "truth (PBool b) = Inr b"
| "truth (PInt i) = Inr (i \<noteq> 0)"
| "truth (PStr s) = Inr (s \<noteq> [])"
| "truth (PList xs) = Inr (xs \<noteq> [])"
| "truth (PTuple xs) = Inr (xs \<noteq> [])"
| "truth (PDict kvs) = Inr (kvs \<noteq> [])"
| "truth (PDataFrame cs rs t) =
     Inl (PyExc ValueError
       ''The truth value of a DataFrame is ambiguous. Use a.empty, a.bool(), a.item(), a.any() or a.all().'')"
| "truth (PObject ty r) = (if ty \<in> set plain_types then Inr True else Inl (PyExc Unmodelled ''bool''))"

fun exec_stmt :: "stmt \<Rightarrow> pystate \<Rightarrow> (pyexc + unit) \<times> pystate"
  and exec_stmts :: "stmt list \<Rightarrow> pystate \<Rightarrow> (pyexc + unit) \<times> pystate" where
  "exec_stmt (Assign x e) s =
     (case eval_expr e s of
        (Inl err, s1) \<Rightarrow> (Inl err, s1)
      | (Inr v, s1) \<Rightarrow> (Inr (), s1\<lparr>global_namespace := dict_set (global_namespace s1) x v\<rparr>))"
| "exec_stmt (Expr e) s =
     (case eval_expr e s of
        (Inl err, s1) \<Rightarrow> (Inl err, s1)
      | (Inr v, s1) \<Rightarrow> (Inr (), s1))"
| "exec_stmt (If c body) s =
     (case eval_expr c s of
        (Inl err, s1) \<Rightarrow> (Inl err, s1)
      | (Inr v, s1) \<Rightarrow>
          (case truth v of
             Inl err \<Rightarrow> (Inl err, s1)
           | Inr b \<Rightarrow> if b then exec_stmts body s1 else (Inr (), s1)))"
| "exec_stmts [] s = (Inr (), s)"
| "exec_stmts (st # sts) s =
     (case exec_stmt st s of
        (Inl err, s1) \<Rightarrow> (Inl err, s1)
      | (Inr u, s1) \<Rightarrow> exec_stmts sts s1)"

definition syntax_error :: pyexc where
  "syntax_error = PyExc SyntaxError ''invalid syntax''"

definition mini_exec :: "string \<Rightarrow> unit run" where
  "mini_exec src s =
     (case parse_module src of
        None \<Rightarrow> Some (Inl syntax_error, s)
      | Some sts \<Rightarrow> Some (exec_stmts sts s))"

definition mini_eval :: "string \<Rightarrow> pyval run" where
  "mini_eval src s =
     (case parse_expression src of
        None \<Rightarrow> Some (Inl syntax_error, s)
      | Some e \<Rightarrow> Some (eval_expr e s))"

fun exc_name :: "exc_class \<Rightarrow> string" where
  "exc_name SyntaxError = ''SyntaxError''"
| "exc_name NameError = ''NameError''"
| "exc_name TypeError = ''TypeError''"
| "exc_name ValueError = ''ValueError''"
| "exc_name ImportError = ''ImportError''"
| "exc_name ModuleNotFoundError = ''ModuleNotFoundError''"
| "exc_name FileNotFoundError = ''FileNotFoundError''"
| "exc_name SystemExit = ''SystemExit''"
| "exc_name KeyboardInterrupt = ''KeyboardInterrupt''"
| "exc_name (OtherException n) = n"
| "exc_name Unmodelled = ''Unmodelled''"

text \<open>The last line of the formatted trace; the stack frames printed above it depend on
  the installation.\<close>

definition last_trace_line :: "pyexc \<Rightarrow> string" where
  "last_trace_line e =
     (case e of
        PyExc c m \<Rightarrow> exc_name c @ '': '' @ m @ [CHR 0x0A]
      | CalledProcessError rc out err \<Rightarrow>
          ''subprocess.CalledProcessError: non-zero exit status '' @ str_int rc @ [CHR 0x0A])"

text \<open>The interpreter of the fragment, with a package manager whose commands all exit with
  status 0.\<close>

definition mini :: runtime where
  "mini = \<lparr>py_exec = mini_exec, py_eval = mini_eval, py_repr = mini_repr,
           format_exc = last_trace_line,
           subprocess_run = (\<lambda>argv s. Some (Inr (CompletedProcess 0 [] []), s)),
           py_builtins = builtins_module, py_pandas = pandas_module\<rparr>"

text \<open>The state of a server that has just started.\<close>

definition initial :: pystate where
  "initial = \<lparr>global_namespace = [(''__builtins__'', builtins_module), (''pd'', pandas_module)],
              sys_stdout = Stdout, sys_stderr = Stderr, written = [], allocated = 0,
              invocations = []\<rparr>"

section \<open>Notions the properties are stated with\<close>

text \<open>The responses of \<open>execute_python\<close>, as the documents whose text they carry: the error
  envelope for an exception, the generic envelope (\<open>output\<close> and \<open>errors\<close> only when not
  empty, then \<open>result\<close>), and the envelope of a data frame.\<close>

definition error_envelope :: "runtime \<Rightarrow> pyexc \<Rightarrow> content list" where
  "error_envelope rt e =
     [TextContent (render (JObj [(''error'', JStr (''Error executing code:\<newline>'' @ format_exc rt e))]))]"

definition result_envelope :: "string \<Rightarrow> string \<Rightarrow> json \<Rightarrow> content list" where
  "result_envelope output errors j =
     [TextContent (render (JObj ((if output \<noteq> [] then [(''output'', JStr output)] else []) @
                                 (if errors \<noteq> [] then [(''errors'', JStr errors)] else []) @
                                 [(''result'', j)])))]"

definition dataframe_envelope :: "string list \<Rightarrow> json list \<Rightarrow> content list" where
  "dataframe_envelope cs rows =
     [TextContent (render (JObj [(''type'', JStr ''dataframe''),
                                 (''data'', JArr rows),
                                 (''columns'', JArr (map JStr cs)),
                                 (''shape'', JArr [JInt (int (length rows)), JInt (int (length cs))])]))]"

text \<open>The namespace of a fresh session, and a request that does not ask for a reset.\<close>

definition seeded :: "runtime \<Rightarrow> (string \<times> pyval) list" where
  "seeded rt = [(''__builtins__'', py_builtins rt), (''pd'', py_pandas rt)]"

definition reset_falsy :: "(string \<times> json) list \<Rightarrow> bool" where
  "reset_falsy args = (case map_of args ''reset'' of None \<Rightarrow> True | Some r \<Rightarrow> \<not> truthy r)"

text \<open>The state in which the submitted code runs (two fresh buffers, both channels
  redirected to them), and the state a run that stopped in \<open>s'\<close> leaves behind once the
  channels of \<open>s\<close> are put back.\<close>

definition capturing :: "pystate \<Rightarrow> pystate" where
  "capturing s =
     (snd (new_StringIO (snd (new_StringIO s))))
       \<lparr>sys_stdout := fst (new_StringIO s), sys_stderr := fst (new_StringIO (snd (new_StringIO s)))\<rparr>"

definition released :: "pystate \<Rightarrow> pystate \<Rightarrow> pystate" where
  "released s s' = s'\<lparr>sys_stderr := sys_stderr s, sys_stdout := sys_stdout s\<rparr>"

text \<open>A text is not an expression for the runtime: \<open>eval\<close> answers \<open>SyntaxError\<close> on it in
  every state, without running anything.\<close>

definition rejects :: "runtime \<Rightarrow> string \<Rightarrow> bool" where
  "rejects rt line = (\<forall>s. \<exists>m. py_eval rt line s = Some (Inl (PyExc SyntaxError m), s))"


fun is_frame :: "pyval \<Rightarrow> bool" where
  "is_frame (PDataFrame cs rs t) = True"
| "is_frame v = False"

fun is_list_or_dict :: "pyval \<Rightarrow> bool" where
  "is_list_or_dict (PList xs) = True"
| "is_list_or_dict (PDict kvs) = True"
| "is_list_or_dict v = False"

text \<open>Values used in the examples: a frame with two rows and two columns, a frame with a
  cell the JSON encoder does not accept, and the namespace of a session that holds them.\<close>

definition small_frame :: pyval where
  "small_frame = PDataFrame [''a'', ''b''] [[PInt 1, PInt 2], [PInt 3, PInt 4]]
                   ''   a  b\<newline>0  1  2\<newline>1  3  4''"

definition timestamp :: pyval where
  "timestamp = PObject ''Timestamp'' ''Timestamp('2024-01-01 00:00:00')''"

definition timestamp_frame :: pyval where
  "timestamp_frame = PDataFrame [''when''] [[timestamp]] ''        when\<newline>0 2024-01-01''"

definition session :: pystate where
  "session = initial\<lparr>global_namespace :=
               seeded mini @ [(''df'', small_frame), (''tf'', timestamp_frame),
                              (''xs'', PList [PInt 1, PInt 2]), (''ts'', PList [timestamp]),
                              (''pair'', PTuple [PInt 1, PInt 2])]\<rparr>"

text \<open>The state a call leaves when it started in \<open>s\<close>, created its two buffers and wrote
  \<open>out\<close> to the first.\<close>

definition after_call :: "pystate \<Rightarrow> string \<Rightarrow> pystate" where
  "after_call s out =
     s\<lparr>written := dict_set (dict_set (written s) (StringIO (allocated s)) out)
                     (StringIO (Suc (allocated s))) [],
       allocated := Suc (Suc (allocated s))\<rparr>"

section \<open>Properties of the handler\<close>

subsection \<open>The handler, for any runtime\<close>

lemma respond_str_doc:
  "respond (PDict [(PStr k, PStr v)]) s = (Inr [TextContent (render (JObj [(k, JStr v)]))], s)"
  by (simp add: respond_def json_dumps_def)

lemma except_Exception_caught:
  "derives_Exception e \<Longrightarrow> except_Exception rt (Inl e, s) = (Inr (error_envelope rt e), s)"
  by (simp add: except_Exception_def error_envelope_def respond_str_doc)

lemma except_Exception_uncaught:
  "\<not> derives_Exception e \<Longrightarrow> except_Exception rt (Inl e, s) = (Inl e, s)"
  by (simp add: except_Exception_def)

lemma except_Exception_Inr:
  "except_Exception rt (Inr cs, s) = (Inr cs, s)"
  by (simp add: except_Exception_def)

lemma execute_call:
  assumes "map_of args ''code'' = Some code" and "truthy code" and "reset_falsy args"
  shows "handle_call_tool rt ''execute_python'' (Some args) s =
           (case captured_run rt code s of
              None \<Rightarrow> None
            | Some (Inl e, out, err, s1) \<Rightarrow> Some (except_Exception rt (Inl e, s1))
            | Some (Inr u, out, err, s1) \<Rightarrow>
                (case code of
                   JStr src \<Rightarrow> map_option (except_Exception rt) (after_exec rt src out err s1)
                 | _ \<Rightarrow> Some (except_Exception rt
                            (Inl (PyExc (OtherException ''AttributeError'') ''object has no attribute 'strip' ''), s1))))"
proof -
  from assms(1) have "args \<noteq> []" by auto
  with assms show ?thesis
    by (auto simp: handle_call_tool_def execute_python_def reset_falsy_def split: option.splits)
qed

lemma captured_run_exec:
  "captured_run rt code s =
     map_option (\<lambda>(r, s'). (r, StringIO (allocated s), StringIO (Suc (allocated s)), released s s'))
       (exec_code rt code (capturing s))"
  by (auto simp: captured_run_def capturing_def released_def new_StringIO_def redirect_def Let_def
           split: option.splits prod.splits)

lemma captured_run_restores:
  assumes "captured_run rt code s = Some (r, out, err, s1)"
  shows "sys_stdout s1 = sys_stdout s \<and> sys_stderr s1 = sys_stderr s"
  using assms by (auto simp: captured_run_exec released_def)

lemma map_of_dict_set:
  "map_of (dict_set xs k v) k' = (if k' = k then Some v else map_of xs k')"
  by (induction xs) auto

lemma capturing_simps:
  "global_namespace (capturing s) = global_namespace s"
  "sys_stdout (capturing s) = StringIO (allocated s)"
  "sys_stderr (capturing s) = StringIO (Suc (allocated s))"
  "invocations (capturing s) = invocations s"
  "allocated (capturing s) = Suc (Suc (allocated s))"
  "getvalue (capturing s) (StringIO (allocated s)) = []"
  "getvalue (capturing s) (StringIO (Suc (allocated s))) = []"
  by (simp_all add: capturing_def new_StringIO_def getvalue_def map_of_dict_set)

lemma released_simps:
  "global_namespace (released s s') = global_namespace s'"
  "sys_stdout (released s s') = sys_stdout s"
  "sys_stderr (released s s') = sys_stderr s"
  "written (released s s') = written s'"
  "getvalue (released s s') st = getvalue s' st"
  "allocated (released s s') = allocated s'"
  "invocations (released s s') = invocations s'"
  by (simp_all add: released_def getvalue_def)

lemma released_capturing: "released s (capturing s) = after_call s []"
  by (simp add: released_def capturing_def after_call_def new_StringIO_def)



lemma result_doc:
  "respond (PDict (dict_set (result_dict output errors) (PStr ''result'') x)) s =
   (case to_json x of Inl e \<Rightarrow> (Inl e, s) | Inr j \<Rightarrow> (Inr (result_envelope output errors j), s))"
  by (auto simp: respond_def json_dumps_def result_envelope_def result_dict_def split: sum.splits)

lemma classify_frame:
  "classify rt result (PDataFrame cs rs t) s = respond (df_json cs rs) s"
  by (simp add: classify_def)


lemma classify_repr:
  "\<not> is_list_or_dict v \<Longrightarrow> \<not> is_frame v \<Longrightarrow>
   classify rt result v s = respond (PDict (dict_set result (PStr ''result'') (PStr (py_repr rt v)))) s"
  by (cases v) (simp_all add: classify_def)

lemma execute_value:
  assumes "map_of args ''code'' = Some (JStr src)" and "src \<noteq> []" and "reset_falsy args"
    and "captured_run rt (JStr src) s = Some (Inr u, out, err, s1)"
    and "py_eval rt (last_line src) s1 = Some (Inr v, s2)"
  shows "handle_call_tool rt ''execute_python'' (Some args) s =
           Some (except_Exception rt
             (classify rt (result_dict (getvalue s1 out) (getvalue s1 err)) v s2))"
  using assms(2,4,5)
  by (simp add: execute_call[OF assms(1) _ assms(3)] after_exec_def Let_def)

lemma to_json_list_map:
  "to_json_list (map f xs) = Inr js \<Longrightarrow> list_all2 (\<lambda>x j. to_json (f x) = Inr j) xs js"
  by (induction xs arbitrary: js) (auto split: sum.splits)

lemma to_json_list_strs: "to_json_list (map PStr cs) = Inr (map JStr cs)"
  by (induction cs) auto

lemma frame_doc:
  "respond (df_json cs rs) s =
     (case to_json_list (map (record_of cs) rs) of
        Inl e \<Rightarrow> (Inl e, s)
      | Inr rows \<Rightarrow> (Inr (dataframe_envelope cs rows), s))"
proof (cases "to_json_list (map (record_of cs) rs)")
  case (Inl e)
  then show ?thesis
    by (simp add: respond_def json_dumps_def df_json_def to_dict_records_def)
next
  case (Inr rows)
  then have "length rows = length rs"
    using to_json_list_map[of "record_of cs" rs rows] by (simp add: list_all2_lengthD)
  with Inr show ?thesis
    by (simp add: respond_def json_dumps_def df_json_def to_dict_records_def
                  dataframe_envelope_def to_json_list_strs)
qed

lemma record_of_acc:
  assumes "distinct ks" and "length vs = length ks" and "set ks \<inter> fst ` set acc = {}"
  shows "foldl (\<lambda>d kv. dict_set d (fst kv) (snd kv)) acc (zip ks vs) = acc @ zip ks vs"
  using assms
proof (induction ks arbitrary: vs acc)
  case Nil
  then show ?case by simp
next
  case (Cons k ks)
  then obtain v vs' where vs: "vs = v # vs'" by (cases vs) auto
  have app: "dict_set acc k v = acc @ [(k, v)]" if "k \<notin> fst ` set acc" for acc :: "('a \<times> 'b) list"
    using that by (induction acc) auto
  from Cons.prems have k: "k \<notin> fst ` set acc" by auto
  from Cons.prems vs have "set ks \<inter> fst ` set (acc @ [(k, v)]) = {}" by auto
  with Cons.IH[of vs' "acc @ [(k, v)]"] Cons.prems vs app[OF k] show ?case by simp
qed

lemma record_of_distinct:
  assumes "distinct cs" and "length row = length cs"
  shows "record_of cs row = PDict (zip (map PStr cs) row)"
proof -
  from assms(1) have "distinct (map PStr cs)" by (simp add: distinct_map inj_on_def)
  from record_of_acc[OF this, of row "[]"] assms(2) show ?thesis
    by (simp add: record_of_def)
qed

subsection \<open>The handler on the fragment\<close>

lemma mini_fields:
  "py_exec mini = mini_exec" "py_eval mini = mini_eval" "py_repr mini = mini_repr"
  "format_exc mini = last_trace_line" "py_builtins mini = builtins_module"
  "py_pandas mini = pandas_module"
  by (simp_all add: mini_def)

lemma mini_rejects:
  "parse_expression line = None \<Longrightarrow> rejects mini line"
  by (simp add: rejects_def mini_def mini_eval_def syntax_error_def)

lemma mini_captured_run:
  assumes "parse_module src = Some sts"
  shows "captured_run mini (JStr src) s =
           Some (fst (exec_stmts sts (capturing s)), StringIO (allocated s), StringIO (Suc (allocated s)),
                 released s (snd (exec_stmts sts (capturing s))))"
  using assms
  by (simp add: captured_run_exec exec_code_def mini_def mini_exec_def split: prod.splits)

lemma mini_execute:
  assumes "map_of args ''code'' = Some (JStr src)" and "src \<noteq> []" and "reset_falsy args"
    and "parse_module src = Some sts"
    and "exec_stmts sts (capturing s) = (Inr u, sa)"
  shows "handle_call_tool mini ''execute_python'' (Some args) s =
           Some (except_Exception mini
             (case parse_expression (last_line src) of
                None \<Rightarrow> (Inl syntax_error, released s sa)
              | Some e \<Rightarrow>
                  (case eval_expr e (released s sa) of
                     (Inl err, sc) \<Rightarrow> (Inl err, sc)
                   | (Inr w, sc) \<Rightarrow>
                       classify mini (result_dict (getvalue sa (StringIO (allocated s)))
                                                  (getvalue sa (StringIO (Suc (allocated s))))) w sc)))"
proof -
  have run: "captured_run mini (JStr src) s =
               Some (Inr u, StringIO (allocated s), StringIO (Suc (allocated s)), released s sa)"
    using assms(5) by (simp add: mini_captured_run[OF assms(4)])
  show ?thesis
  proof (cases "parse_expression (last_line src)")
    case None
    then show ?thesis
      using assms(2)
      by (simp add: execute_call[OF assms(1) _ assms(3)] run after_exec_def Let_def
                    mini_fields mini_eval_def)
  next
    case (Some e)
    then show ?thesis
      using assms(2)
      by (cases "eval_expr e (released s sa)"; cases "fst (eval_expr e (released s sa))")
         (simp_all add: execute_call[OF assms(1) _ assms(3)] run after_exec_def Let_def
                        mini_fields mini_eval_def released_simps)
  qed
qed


lemma exec_stmts_append:
  "exec_stmts (xs @ ys) s =
     (case exec_stmts xs s of (Inl e, s1) \<Rightarrow> (Inl e, s1) | (Inr u, s1) \<Rightarrow> exec_stmts ys s1)"
  by (induction xs arbitrary: s) (auto split: prod.splits sum.splits)

lemma eval_expr_namespace:
  "global_namespace (snd (eval_expr e s)) = global_namespace s"
proof (induction e arbitrary: s)
  case (Add a b)
  from Add.IH(1)[of s] Add.IH(2)[of "snd (eval_expr a s)"] show ?case
    by (auto split: prod.splits sum.splits)
next
  case (Call f a)
  from Call.IH(1)[of s] Call.IH(2)[of "snd (eval_expr f s)"] show ?case
    by (auto simp: call_def write_stream_def split: prod.splits sum.splits)
qed simp_all

lemma failing_simple_statement:
  assumes "exec_stmt st s = (Inl e, s')" and "st = Assign x ex \<or> st = Expr ex"
  shows "global_namespace s' = global_namespace s"
  using assms eval_expr_namespace[of ex s]
  by (auto split: prod.splits sum.splits)

lemma eval_expr_channels:
  "sys_stdout (snd (eval_expr e s)) = sys_stdout s \<and> sys_stderr (snd (eval_expr e s)) = sys_stderr s"
proof (induction e arbitrary: s)
  case (Add a b)
  from Add.IH(1)[of s] Add.IH(2)[of "snd (eval_expr a s)"] show ?case
    by (auto split: prod.splits sum.splits)
next
  case (Call f a)
  from Call.IH(1)[of s] Call.IH(2)[of "snd (eval_expr f s)"] show ?case
    by (auto simp: call_def write_stream_def split: prod.splits sum.splits)
qed simp_all

lemma exec_channels:
  shows "sys_stdout (snd (exec_stmt st s)) = sys_stdout s \<and> sys_stderr (snd (exec_stmt st s)) = sys_stderr s"
    and "sys_stdout (snd (exec_stmts sts s)) = sys_stdout s \<and> sys_stderr (snd (exec_stmts sts s)) = sys_stderr s"
proof (induction st s and sts s rule: exec_stmt_exec_stmts.induct)
  case (1 x e s)
  from eval_expr_channels[of e s] show ?case by (auto split: prod.splits sum.splits)
next
  case (2 e s)
  from eval_expr_channels[of e s] show ?case by (auto split: prod.splits sum.splits)
next
  case (3 c body s)
  from eval_expr_channels[of c s] 3 show ?case by (auto split: prod.splits sum.splits)
next
  case (4 s)
  show ?case by simp
next
  case (5 st sts s)
  then show ?case by (auto split: prod.splits sum.splits)
qed

lemma eval_expr_no_syntax_error:
  "fst (eval_expr e s) \<noteq> Inl (PyExc SyntaxError m)"
proof (induction e arbitrary: s)
  case (Lit v)
  show ?case by simp
next
  case (Name x)
  show ?case by (simp add: lookup_def split: option.splits)
next
  case (Add a b)
  from Add.IH(1)[of s] Add.IH(2)[of "snd (eval_expr a s)"] show ?case
    by (auto simp: add_def concat_error_def split: prod.splits sum.splits option.splits pyval.splits)
next
  case (Call f a)
  from Call.IH(1)[of s] Call.IH(2)[of "snd (eval_expr f s)"] show ?case
    by (auto simp: call_def split: prod.splits sum.splits)
qed

lemma mini_rejects_iff:
  "rejects mini line \<longleftrightarrow> parse_expression line = None"
proof
  assume r: "rejects mini line"
  show "parse_expression line = None"
  proof (rule ccontr)
    assume "parse_expression line \<noteq> None"
    then obtain e where e: "parse_expression line = Some e" by auto
    from r obtain m where "py_eval mini line initial = Some (Inl (PyExc SyntaxError m), initial)"
      unfolding rejects_def by blast
    with e have "fst (eval_expr e initial) = Inl (PyExc SyntaxError m)"
      by (simp add: mini_fields mini_eval_def)
    with eval_expr_no_syntax_error show False by blast
  qed
next
  assume "parse_expression line = None"
  then show "rejects mini line" by (rule mini_rejects)
qed











text \<open>The bound \<open>parse_expr\<close> gives the descent is enough: a token list that parses at
  some depth parses at that bound, so \<open>parse_expr\<close> fails only on what is not an expression
  of the fragment.\<close>

lemma parse_mono_aux:
  "\<forall>m\<ge>n. \<forall>ts e res.
     (parse_atom n ts = Some res \<longrightarrow> parse_atom m ts = Some res) \<and>
     (parse_trailers n e ts = Some res \<longrightarrow> parse_trailers m e ts = Some res) \<and>
     (parse_sum n ts = Some res \<longrightarrow> parse_sum m ts = Some res) \<and>
     (parse_rest n e ts = Some res \<longrightarrow> parse_rest m e ts = Some res)"
proof (induction n)
  case 0
  show ?case by simp
next
  case (Suc n)
  show ?case
  proof (intro allI impI)
    fix m ts e res
    assume "Suc n \<le> m"
    then obtain m' where m: "m = Suc m'" and le: "n \<le> m'" by (cases m) auto
    from Suc le have
      A: "\<And>ts res. parse_atom n ts = Some res \<Longrightarrow> parse_atom m' ts = Some res" and
      T: "\<And>e ts res. parse_trailers n e ts = Some res \<Longrightarrow> parse_trailers m' e ts = Some res" and
      S: "\<And>ts res. parse_sum n ts = Some res \<Longrightarrow> parse_sum m' ts = Some res" and
      R: "\<And>e ts res. parse_rest n e ts = Some res \<Longrightarrow> parse_rest m' e ts = Some res"
      by blast+
    have a: "parse_atom (Suc n) ts = Some res \<longrightarrow> parse_atom m ts = Some res"
      unfolding m
      by (auto split: list.splits token.splits option.splits prod.splits dest: S simp: T)
    have t: "parse_trailers (Suc n) e ts = Some res \<longrightarrow> parse_trailers m e ts = Some res"
      unfolding m
      by (auto split: list.splits token.splits option.splits prod.splits dest: S simp: T)
    have s: "parse_sum (Suc n) ts = Some res \<longrightarrow> parse_sum m ts = Some res"
      unfolding m
      by (auto split: list.splits token.splits option.splits prod.splits dest: A simp: R)
    have r: "parse_rest (Suc n) e ts = Some res \<longrightarrow> parse_rest m e ts = Some res"
      unfolding m
      by (auto split: list.splits token.splits option.splits prod.splits dest: A simp: R)
    from a t s r
    show "(parse_atom (Suc n) ts = Some res \<longrightarrow> parse_atom m ts = Some res) \<and>
          (parse_trailers (Suc n) e ts = Some res \<longrightarrow> parse_trailers m e ts = Some res) \<and>
          (parse_sum (Suc n) ts = Some res \<longrightarrow> parse_sum m ts = Some res) \<and>
          (parse_rest (Suc n) e ts = Some res \<longrightarrow> parse_rest m e ts = Some res)"
      by blast
  qed
qed


lemma parse_length_aux:
  "\<forall>ts e x r.
     (parse_atom n ts = Some (x, r) \<longrightarrow> length r < length ts) \<and>
     (parse_trailers n e ts = Some (x, r) \<longrightarrow> length r \<le> length ts) \<and>
     (parse_sum n ts = Some (x, r) \<longrightarrow> length r < length ts) \<and>
     (parse_rest n e ts = Some (x, r) \<longrightarrow> length r \<le> length ts)"
proof (induction n)
  case 0
  show ?case by simp
next
  case (Suc n)
  then have
    A: "\<And>ts x r. parse_atom n ts = Some (x, r) \<Longrightarrow> length r < length ts" and
    T: "\<And>e ts x r. parse_trailers n e ts = Some (x, r) \<Longrightarrow> length r \<le> length ts" and
    S: "\<And>ts x r. parse_sum n ts = Some (x, r) \<Longrightarrow> length r < length ts" and
    R: "\<And>e ts x r. parse_rest n e ts = Some (x, r) \<Longrightarrow> length r \<le> length ts"
    by blast+
  show ?case
  proof (intro allI)
    fix ts e x r
    have a: "parse_atom (Suc n) ts = Some (x, r) \<longrightarrow> length r < length ts"
      by (auto split: list.splits token.splits option.splits prod.splits dest!: S T)
    have t: "parse_trailers (Suc n) e ts = Some (x, r) \<longrightarrow> length r \<le> length ts"
      by (auto split: list.splits token.splits option.splits prod.splits dest!: S T)
    have s: "parse_sum (Suc n) ts = Some (x, r) \<longrightarrow> length r < length ts"
      by (auto split: list.splits token.splits option.splits prod.splits dest!: A R)
    have r: "parse_rest (Suc n) e ts = Some (x, r) \<longrightarrow> length r \<le> length ts"
      by (auto split: list.splits token.splits option.splits prod.splits dest!: A R)
    from a t s r
    show "(parse_atom (Suc n) ts = Some (x, r) \<longrightarrow> length r < length ts) \<and>
          (parse_trailers (Suc n) e ts = Some (x, r) \<longrightarrow> length r \<le> length ts) \<and>
          (parse_sum (Suc n) ts = Some (x, r) \<longrightarrow> length r < length ts) \<and>
          (parse_rest (Suc n) e ts = Some (x, r) \<longrightarrow> length r \<le> length ts)"
      by blast
  qed
qed


lemma parse_atom_Suc:
  "parse_atom (Suc m) ts = Some (x, r) \<longleftrightarrow>
     (\<exists>n rest. ts = TNum n # rest \<and> parse_trailers m (Lit (PInt (int n))) rest = Some (x, r)) \<or>
     (\<exists>w rest a. ts = TName w # rest \<and> atom_of_word w = Some a \<and> parse_trailers m a rest = Some (x, r)) \<or>
     (\<exists>rest e r'. ts = TLpar # rest \<and> parse_sum m rest = Some (e, TRpar # r') \<and>
        parse_trailers m e r' = Some (x, r))"
  by (auto split: list.splits token.splits option.splits prod.splits)

lemma parse_trailers_Suc:
  "parse_trailers (Suc m) e ts = Some (x, r) \<longleftrightarrow>
     (\<exists>rest a r'. ts = TLpar # rest \<and> parse_sum m rest = Some (a, TRpar # r') \<and>
        parse_trailers m (Call e a) r' = Some (x, r)) \<or>
     ((\<forall>rest. ts \<noteq> TLpar # rest) \<and> x = e \<and> r = ts)"
  by (auto split: list.splits token.splits option.splits prod.splits)

lemma parse_sum_Suc:
  "parse_sum (Suc m) ts = Some (x, r) \<longleftrightarrow>
     (\<exists>e r'. parse_atom m ts = Some (e, r') \<and> parse_rest m e r' = Some (x, r))"
  by (auto split: option.splits prod.splits)

lemma parse_rest_Suc:
  "parse_rest (Suc m) e ts = Some (x, r) \<longleftrightarrow>
     (\<exists>rest b r'. ts = TPlus # rest \<and> parse_atom m rest = Some (b, r') \<and>
        parse_rest m (Add e b) r' = Some (x, r)) \<or>
     ((\<forall>rest. ts \<noteq> TPlus # rest) \<and> x = e \<and> r = ts)"
  by (auto split: list.splits token.splits option.splits prod.splits)


lemma parse_length:
  shows "parse_atom n ts = Some (x, r) \<Longrightarrow> length r < length ts"
    and "parse_trailers n e ts = Some (x, r) \<Longrightarrow> length r \<le> length ts"
    and "parse_sum n ts = Some (x, r) \<Longrightarrow> length r < length ts"
    and "parse_rest n e ts = Some (x, r) \<Longrightarrow> length r \<le> length ts"
  using parse_length_aux[of n, rule_format, of ts x r e] by simp_all

lemma parse_sum_step:
  assumes A: "\<And>ts x r k. parse_atom m ts = Some (x, r) \<Longrightarrow> 2 * length ts + 2 \<le> k + 2 * length r \<Longrightarrow>
          parse_atom k ts = Some (x, r)"
    and R: "\<And>e ts x r k. parse_rest m e ts = Some (x, r) \<Longrightarrow> 2 * length ts + 1 \<le> k + 2 * length r \<Longrightarrow>
          parse_rest k e ts = Some (x, r)"
    and h: "parse_sum (Suc m) ts = Some (x, r)" and i: "2 * length ts + 3 \<le> k + 2 * length r"
  shows "parse_sum k ts = Some (x, r)"
proof -
  from parse_length(3)[OF h] i obtain k' where k: "k = Suc k'" by (cases k) auto
  from h obtain e' r' where p: "parse_atom m ts = Some (e', r')" "parse_rest m e' r' = Some (x, r)"
    unfolding parse_sum_Suc by blast
  from parse_length(1)[OF p(1)] parse_length(4)[OF p(2)] have l: "length r' < length ts" "length r \<le> length r'"
    by simp_all
  have "2 * length ts + 2 \<le> k' + 2 * length r'" using i k l by linarith
  from A[OF p(1) this] have 1: "parse_atom k' ts = Some (e', r')" .
  have "2 * length r' + 1 \<le> k' + 2 * length r" using i k l by linarith
  from R[OF p(2) this] have 2: "parse_rest k' e' r' = Some (x, r)" .
  from 1 2 show "parse_sum k ts = Some (x, r)" unfolding k parse_sum_Suc by blast
qed


lemma parse_rest_step:
  assumes A: "\<And>ts x r k. parse_atom m ts = Some (x, r) \<Longrightarrow> 2 * length ts + 2 \<le> k + 2 * length r \<Longrightarrow>
          parse_atom k ts = Some (x, r)"
    and R: "\<And>e ts x r k. parse_rest m e ts = Some (x, r) \<Longrightarrow> 2 * length ts + 1 \<le> k + 2 * length r \<Longrightarrow>
          parse_rest k e ts = Some (x, r)"
    and h: "parse_rest (Suc m) e ts = Some (x, r)" and i: "2 * length ts + 1 \<le> k + 2 * length r"
  shows "parse_rest k e ts = Some (x, r)"
proof -
  from parse_length(4)[OF h] i obtain k' where k: "k = Suc k'" by (cases k) auto
  from h consider
    (plus) rest b r' where "ts = TPlus # rest" "parse_atom m rest = Some (b, r')"
      "parse_rest m (Add e b) r' = Some (x, r)"
  | (stop) "\<forall>rest. ts \<noteq> TPlus # rest" "x = e" "r = ts"
    unfolding parse_rest_Suc by blast
  then show ?thesis
  proof cases
    case plus
    from parse_length(1)[OF plus(2)] parse_length(4)[OF plus(3)]
    have l: "length r' < length rest" "length r \<le> length r'"
      by simp_all
    from plus(1) have lt: "length ts = Suc (length rest)" by simp
    have "2 * length rest + 2 \<le> k' + 2 * length r'" using i k l lt by linarith
    from A[OF plus(2) this] have 1: "parse_atom k' rest = Some (b, r')" .
    have "2 * length r' + 1 \<le> k' + 2 * length r" using i k l lt by linarith
    from R[OF plus(3) this] have 2: "parse_rest k' (Add e b) r' = Some (x, r)" .
    from 1 2 plus(1) show ?thesis unfolding k parse_rest_Suc by blast
  next
    case stop
    then show ?thesis unfolding k parse_rest_Suc by blast
  qed
qed

lemma parse_trailers_step:
  assumes T: "\<And>e ts x r k. parse_trailers m e ts = Some (x, r) \<Longrightarrow> 2 * length ts + 1 \<le> k + 2 * length r \<Longrightarrow>
          parse_trailers k e ts = Some (x, r)"
    and S: "\<And>ts x r k. parse_sum m ts = Some (x, r) \<Longrightarrow> 2 * length ts + 3 \<le> k + 2 * length r \<Longrightarrow>
          parse_sum k ts = Some (x, r)"
    and h: "parse_trailers (Suc m) e ts = Some (x, r)" and i: "2 * length ts + 1 \<le> k + 2 * length r"
  shows "parse_trailers k e ts = Some (x, r)"
proof -
  from parse_length(2)[OF h] i obtain k' where k: "k = Suc k'" by (cases k) auto
  from h consider
    (call) rest a r' where "ts = TLpar # rest" "parse_sum m rest = Some (a, TRpar # r')"
      "parse_trailers m (Call e a) r' = Some (x, r)"
  | (stop) "\<forall>rest. ts \<noteq> TLpar # rest" "x = e" "r = ts"
    unfolding parse_trailers_Suc by blast
  then show ?thesis
  proof cases
    case call
    from parse_length(3)[OF call(2)] parse_length(2)[OF call(3)]
    have l: "Suc (length r') < length rest" "length r \<le> length r'"
      by simp_all
    from call(1) have lt: "length ts = Suc (length rest)" by simp
    have "2 * length rest + 3 \<le> k' + 2 * length (TRpar # r')" using i k l lt by simp
    from S[OF call(2) this] have 1: "parse_sum k' rest = Some (a, TRpar # r')" .
    have "2 * length r' + 1 \<le> k' + 2 * length r" using i k l lt by linarith
    from T[OF call(3) this] have 2: "parse_trailers k' (Call e a) r' = Some (x, r)" .
    from 1 2 call(1) show ?thesis unfolding k parse_trailers_Suc by blast
  next
    case stop
    then show ?thesis unfolding k parse_trailers_Suc by blast
  qed
qed

lemma parse_atom_step:
  assumes T: "\<And>e ts x r k. parse_trailers m e ts = Some (x, r) \<Longrightarrow> 2 * length ts + 1 \<le> k + 2 * length r \<Longrightarrow>
          parse_trailers k e ts = Some (x, r)"
    and S: "\<And>ts x r k. parse_sum m ts = Some (x, r) \<Longrightarrow> 2 * length ts + 3 \<le> k + 2 * length r \<Longrightarrow>
          parse_sum k ts = Some (x, r)"
    and h: "parse_atom (Suc m) ts = Some (x, r)" and i: "2 * length ts + 2 \<le> k + 2 * length r"
  shows "parse_atom k ts = Some (x, r)"
proof -
  from parse_length(1)[OF h] i obtain k' where k: "k = Suc k'" by (cases k) auto
  from h consider
    (num) n rest where "ts = TNum n # rest" "parse_trailers m (Lit (PInt (int n))) rest = Some (x, r)"
  | (name) w rest a where "ts = TName w # rest" "atom_of_word w = Some a"
      "parse_trailers m a rest = Some (x, r)"
  | (par) rest e' r' where "ts = TLpar # rest" "parse_sum m rest = Some (e', TRpar # r')"
      "parse_trailers m e' r' = Some (x, r)"
    unfolding parse_atom_Suc by blast
  then show ?thesis
  proof cases
    case num
    from num(1) have lt: "length ts = Suc (length rest)" by simp
    have "2 * length rest + 1 \<le> k' + 2 * length r" using i k lt by linarith
    from T[OF num(2) this] have "parse_trailers k' (Lit (PInt (int n))) rest = Some (x, r)" .
    with num(1) show ?thesis unfolding k parse_atom_Suc by blast
  next
    case name
    from name(1) have lt: "length ts = Suc (length rest)" by simp
    have "2 * length rest + 1 \<le> k' + 2 * length r" using i k lt by linarith
    from T[OF name(3) this] have "parse_trailers k' a rest = Some (x, r)" .
    with name(1,2) show ?thesis unfolding k parse_atom_Suc by blast
  next
    case par
    from parse_length(3)[OF par(2)] parse_length(2)[OF par(3)]
    have l: "Suc (length r') < length rest" "length r \<le> length r'"
      by simp_all
    from par(1) have lt: "length ts = Suc (length rest)" by simp
    have "2 * length rest + 3 \<le> k' + 2 * length (TRpar # r')" using i k l lt by simp
    from S[OF par(2) this] have 1: "parse_sum k' rest = Some (e', TRpar # r')" .
    have "2 * length r' + 1 \<le> k' + 2 * length r" using i k l lt by linarith
    from T[OF par(3) this] have 2: "parse_trailers k' e' r' = Some (x, r)" .
    from 1 2 par(1) show ?thesis unfolding k parse_atom_Suc by blast
  qed
qed


lemma parse_fuel_aux:
  "(\<forall>ts x r k. parse_atom m ts = Some (x, r) \<longrightarrow> 2 * length ts + 2 \<le> k + 2 * length r \<longrightarrow>
        parse_atom k ts = Some (x, r)) \<and>
   (\<forall>e ts x r k. parse_trailers m e ts = Some (x, r) \<longrightarrow> 2 * length ts + 1 \<le> k + 2 * length r \<longrightarrow>
        parse_trailers k e ts = Some (x, r)) \<and>
   (\<forall>ts x r k. parse_sum m ts = Some (x, r) \<longrightarrow> 2 * length ts + 3 \<le> k + 2 * length r \<longrightarrow>
        parse_sum k ts = Some (x, r)) \<and>
   (\<forall>e ts x r k. parse_rest m e ts = Some (x, r) \<longrightarrow> 2 * length ts + 1 \<le> k + 2 * length r \<longrightarrow>
        parse_rest k e ts = Some (x, r))"
proof (induction m)
  case 0
  show ?case by simp
next
  case (Suc m)
  note A = Suc[THEN conjunct1, rule_format]
  note T = Suc[THEN conjunct2, THEN conjunct1, rule_format]
  note S = Suc[THEN conjunct2, THEN conjunct2, THEN conjunct1, rule_format]
  note R = Suc[THEN conjunct2, THEN conjunct2, THEN conjunct2, rule_format]
  have 1: "\<forall>ts x r k. parse_atom (Suc m) ts = Some (x, r) \<longrightarrow> 2 * length ts + 2 \<le> k + 2 * length r \<longrightarrow>
        parse_atom k ts = Some (x, r)"
    by (intro allI impI, rule parse_atom_step[of m]) (erule (1) T S)+
  have 2: "\<forall>e ts x r k. parse_trailers (Suc m) e ts = Some (x, r) \<longrightarrow> 2 * length ts + 1 \<le> k + 2 * length r \<longrightarrow>
        parse_trailers k e ts = Some (x, r)"
    by (intro allI impI, rule parse_trailers_step[of m]) (erule (1) T S)+
  have 3: "\<forall>ts x r k. parse_sum (Suc m) ts = Some (x, r) \<longrightarrow> 2 * length ts + 3 \<le> k + 2 * length r \<longrightarrow>
        parse_sum k ts = Some (x, r)"
    by (intro allI impI, rule parse_sum_step[of m]) (erule (1) A R)+
  have 4: "\<forall>e ts x r k. parse_rest (Suc m) e ts = Some (x, r) \<longrightarrow> 2 * length ts + 1 \<le> k + 2 * length r \<longrightarrow>
        parse_rest k e ts = Some (x, r)"
    by (intro allI impI, rule parse_rest_step[of m]) (erule (1) A R)+
  from 1 2 3 4 show ?case by (intro conjI)
qed

lemma parse_fuel:
  assumes "parse_sum m ts = Some (x, r)"
  shows "parse_sum (4 * length ts + 4) ts = Some (x, r)"
  using parse_fuel_aux[of m, THEN conjunct2, THEN conjunct2, THEN conjunct1, rule_format, OF assms,
      of "4 * length ts + 4"]
  by simp

lemma parse_expr_complete:
  "parse_expr ts = Some e \<longleftrightarrow> (\<exists>n. parse_sum n ts = Some (e, [])) \<and> callees_named e"
proof
  assume "parse_expr ts = Some e"
  then have "parse_sum (4 * length ts + 4) ts = Some (e, []) \<and> callees_named e"
    by (simp add: parse_expr_def split: option.splits prod.splits list.splits if_splits)
  then show "(\<exists>n. parse_sum n ts = Some (e, [])) \<and> callees_named e" by blast
next
  assume a: "(\<exists>n. parse_sum n ts = Some (e, [])) \<and> callees_named e"
  then obtain n where "parse_sum n ts = Some (e, [])" by blast
  from parse_fuel[OF this] a show "parse_expr ts = Some e"
    by (simp add: parse_expr_def)
qed






lemma src_x5:
  "parse_module ''x = 5'' = Some [Assign ''x'' (Lit (PInt 5))]"
  "parse_expression (last_line ''x = 5'') = None"
  by code_simp+

lemma src_x1:
  "parse_module ''x + 1'' = Some [Expr (Add (Name ''x'') (Lit (PInt 1)))]"
  "parse_expression (last_line ''x + 1'') = Some (Add (Name ''x'') (Lit (PInt 1)))"
  by code_simp+




lemma repr_6: "str_int 6 = ''6''"
  by code_simp


subsection \<open>A last line that is not an expression\<close>

text \<open>
  Claim C1.  An execute request whose statement run succeeds but whose last line is not a
  syntactically valid standalone expression: the re-evaluation of that line fails with
  \<open>SyntaxError\<close>, the failure is caught, and the call returns the error envelope with the
  formatted trace, in the state the successful statement run left.
\<close>

theorem C1_trailing_non_expression:
  assumes "map_of args ''code'' = Some (JStr src)" and "src \<noteq> []" and "reset_falsy args"
    and "captured_run rt (JStr src) s = Some (Inr u, out, err, s1)"
    and "rejects rt (last_line src)"
  shows "\<exists>m. handle_call_tool rt ''execute_python'' (Some args) s =
              Some (Inr (error_envelope rt (PyExc SyntaxError m)), s1)"
proof -
  from assms(5) obtain m where
    "py_eval rt (last_line src) s1 = Some (Inl (PyExc SyntaxError m), s1)"
    unfolding rejects_def by blast
  then have "handle_call_tool rt ''execute_python'' (Some args) s =
               Some (Inr (error_envelope rt (PyExc SyntaxError m)), s1)"
    using assms(2,4)
    by (simp add: execute_call[OF assms(1) _ assms(3)] after_exec_def Let_def except_Exception_caught)
  then show ?thesis ..
qed

theorem C1_witness:
  "rejects mini (last_line ''x = 5'') \<and>
   (\<exists>m. handle_call_tool mini ''execute_python'' (Some [(''code'', JStr ''x = 5'')]) initial =
      Some (Inr (error_envelope mini (PyExc SyntaxError m)),
            initial\<lparr>global_namespace := seeded mini @ [(''x'', PInt 5)],
                    written := [(StringIO 0, []), (StringIO 1, [])], allocated := 2\<rparr>))"
proof -
  have h1: "map_of [(''code'', JStr ''x = 5'')] ''code'' = Some (JStr ''x = 5'')" by simp
  have h2: "''x = 5'' \<noteq> []" by simp
  have h3: "reset_falsy [(''code'', JStr ''x = 5'')]" by (simp add: reset_falsy_def)
  have h4: "captured_run mini (JStr ''x = 5'') initial =
              Some (Inr (), StringIO 0, StringIO 1,
                    initial\<lparr>global_namespace := seeded mini @ [(''x'', PInt 5)],
                            written := [(StringIO 0, []), (StringIO 1, [])], allocated := 2\<rparr>)"
    by code_simp
  have h5: "rejects mini (last_line ''x = 5'')"
    by (rule mini_rejects) code_simp
  from C1_trailing_non_expression[OF h1 h2 h3 h4 h5] h5 show ?thesis by simp
qed

subsection \<open>Validation of the package name\<close>




subsection \<open>Reset\<close>

text \<open>
  Claim C3, as amended.  For every execute request whose \<open>code\<close> argument is present and
  not empty and whose \<open>reset\<close> is true, whatever the code says: the namespace is cleared and
  re-seeded, the plain confirmation message is the sole content, and nothing else of the
  state changes, for every runtime: no submitted code is run.
\<close>

theorem C3_reset_short_circuits:
  assumes "map_of args ''code'' = Some code" and "truthy code"
    and "map_of args ''reset'' = Some r" and "truthy r"
  shows "handle_call_tool rt ''execute_python'' (Some args) s =
           Some (Inr [TextContent ''Python session reset. All variables cleared.''],
                 s\<lparr>global_namespace := seeded rt\<rparr>)"
proof -
  from assms(1) have "args \<noteq> []" by auto
  with assms show ?thesis
    by (simp add: handle_call_tool_def execute_python_def seeded_def)
qed

theorem C3_witness:
  "handle_call_tool mini ''execute_python''
     (Some [(''code'', JStr ''print(7)''), (''reset'', JBool True)])
     (initial\<lparr>global_namespace := seeded mini @ [(''x'', PInt 5)]\<rparr>) =
   Some (Inr [TextContent ''Python session reset. All variables cleared.''], initial)"
proof -
  have h1: "map_of [(''code'', JStr ''print(7)''), (''reset'', JBool True)] ''code'' = Some (JStr ''print(7)'')"
    by simp
  have h2: "truthy (JStr ''print(7)'')" by simp
  have h3: "map_of [(''code'', JStr ''print(7)''), (''reset'', JBool True)] ''reset'' = Some (JBool True)"
    by simp
  have h4: "truthy (JBool True)" by simp
  have "(initial\<lparr>global_namespace := seeded mini @ [(''x'', PInt 5)]\<rparr>)\<lparr>global_namespace := seeded mini\<rparr> = initial"
    by (simp add: initial_def seeded_def mini_def)
  with C3_reset_short_circuits[OF h1 h2 h3 h4, of mini "initial\<lparr>global_namespace := seeded mini @ [(''x'', PInt 5)]\<rparr>"]
  show ?thesis by simp
qed

text \<open>
  Claim C3 as stated fails when the code is absent or empty: the check of \<open>code\<close> comes
  first, the call raises \<open>ValueError\<close> and the namespace keeps its bindings.
\<close>

theorem C3_counterexample:
  "handle_call_tool mini ''execute_python'' (Some [(''reset'', JBool True)])
     (initial\<lparr>global_namespace := seeded mini @ [(''x'', PInt 5)]\<rparr>) =
   Some (Inl (PyExc ValueError ''Missing code parameter''),
         initial\<lparr>global_namespace := seeded mini @ [(''x'', PInt 5)]\<rparr>) \<and>
   handle_call_tool mini ''execute_python'' (Some [(''code'', JStr []), (''reset'', JBool True)])
     (initial\<lparr>global_namespace := seeded mini @ [(''x'', PInt 5)]\<rparr>) =
   Some (Inl (PyExc ValueError ''Missing code parameter''),
         initial\<lparr>global_namespace := seeded mini @ [(''x'', PInt 5)]\<rparr>)"
  by (simp add: handle_call_tool_def execute_python_def)

subsection \<open>Frames\<close>

text \<open>
  Claim C4, as amended.  For every execute call whose last line evaluates to a frame with
  columns \<open>cs\<close> and rows \<open>rs\<close> whose records the JSON encoder accepts: the response is
  exactly the frame envelope, with one row mapping per row in row order, the column names
  in order and the shape \<open>[length rs, length cs]\<close>; the captured output and errors are not
  in it.  When the column names are distinct, the mapping of a row pairs each name with
  the cell of that column.
\<close>

theorem C4_dataframe_envelope:
  assumes "map_of args ''code'' = Some (JStr src)" and "src \<noteq> []" and "reset_falsy args"
    and "captured_run rt (JStr src) s = Some (Inr u, out, err, s1)"
    and "py_eval rt (last_line src) s1 = Some (Inr (PDataFrame cs rs t), s2)"
    and "to_json_list (map (record_of cs) rs) = Inr rows"
  shows "handle_call_tool rt ''execute_python'' (Some args) s = Some (Inr (dataframe_envelope cs rows), s2) \<and>
         length rows = length rs \<and>
         list_all2 (\<lambda>row j. to_json (record_of cs row) = Inr j) rs rows \<and>
         (distinct cs \<longrightarrow>
            (\<forall>row \<in> set rs. length row = length cs \<longrightarrow> record_of cs row = PDict (zip (map PStr cs) row)))"
  using to_json_list_map[OF assms(6)] assms(6)
  by (simp add: execute_value[OF assms(1-5)] classify_frame frame_doc except_Exception_Inr
                list_all2_lengthD record_of_distinct)

text \<open>
  A frame of two rows and two columns, after a line that prints: the printed text is
  not in the response.
\<close>

theorem C4_witness:
  "handle_call_tool mini ''execute_python'' (Some [(''code'', JStr ''print(7)\<newline>df'')]) session =
     Some (Inr (dataframe_envelope [''a'', ''b'']
                  [JObj [(''a'', JInt 1), (''b'', JInt 2)], JObj [(''a'', JInt 3), (''b'', JInt 4)]]),
           after_call session ''7\<newline>'')"
proof -
  have h1: "map_of [(''code'', JStr ''print(7)\<newline>df'')] ''code'' = Some (JStr ''print(7)\<newline>df'')" by simp
  have h2: "''print(7)\<newline>df'' \<noteq> []" by simp
  have h3: "reset_falsy [(''code'', JStr ''print(7)\<newline>df'')]" by (simp add: reset_falsy_def)
  have h4: "captured_run mini (JStr ''print(7)\<newline>df'') session =
              Some (Inr (), StringIO 0, StringIO 1, after_call session ''7\<newline>'')"
    by code_simp
  have h5: "py_eval mini (last_line ''print(7)\<newline>df'') (after_call session ''7\<newline>'') =
              Some (Inr (PDataFrame [''a'', ''b''] [[PInt 1, PInt 2], [PInt 3, PInt 4]]
                           ''   a  b\<newline>0  1  2\<newline>1  3  4''),
                    after_call session ''7\<newline>'')"
    by code_simp
  have h6: "to_json_list (map (record_of [''a'', ''b'']) [[PInt 1, PInt 2], [PInt 3, PInt 4]]) =
              Inr [JObj [(''a'', JInt 1), (''b'', JInt 2)], JObj [(''a'', JInt 3), (''b'', JInt 4)]]"
    by code_simp
  from C4_dataframe_envelope[OF h1 h2 h3 h4 h5 h6] show ?thesis by simp
qed

text \<open>
  Claim C4 as stated fails on a frame with a cell the encoder refuses (a timestamp):
  the response is the error envelope.
\<close>

theorem C4_counterexample:
  "handle_call_tool mini ''execute_python'' (Some [(''code'', JStr ''tf'')]) session =
     Some (Inr (error_envelope mini (PyExc TypeError ''Object of type Timestamp is not JSON serializable'')),
           after_call session [])"
  by code_simp

subsection \<open>Bindings persist\<close>

text \<open>
  Claim C5.  Executing \<open>x = 5\<close> in one call, from any state, leaves \<open>x\<close> bound to 5 in the
  session namespace; and in every later state in which that binding still stands,
  executing \<open>x + 1\<close> returns the envelope whose \<open>result\<close> is the text of 6.
\<close>

theorem C5_binding_persists:
  "(\<exists>r s1. handle_call_tool mini ''execute_python'' (Some [(''code'', JStr ''x = 5'')]) s = Some (r, s1) \<and>
            map_of (global_namespace s1) ''x'' = Some (PInt 5)) \<and>
   (\<forall>s' :: pystate. map_of (global_namespace s') ''x'' = Some (PInt 5) \<longrightarrow>
      handle_call_tool mini ''execute_python'' (Some [(''code'', JStr ''x + 1'')]) s' =
        Some (Inr (result_envelope [] [] (JStr ''6'')), after_call s' []))"
proof (intro conjI allI impI)
  have a1: "map_of [(''code'', JStr ''x = 5'')] ''code'' = Some (JStr ''x = 5'')" by simp
  have a2: "''x = 5'' \<noteq> []" by simp
  have a3: "reset_falsy [(''code'', JStr ''x = 5'')]" by (simp add: reset_falsy_def)
  have a5: "exec_stmts [Assign ''x'' (Lit (PInt 5))] (capturing s) =
              (Inr (), (capturing s)\<lparr>global_namespace := dict_set (global_namespace (capturing s)) ''x'' (PInt 5)\<rparr>)"
    by simp
  show "\<exists>r s1. handle_call_tool mini ''execute_python'' (Some [(''code'', JStr ''x = 5'')]) s = Some (r, s1) \<and>
               map_of (global_namespace s1) ''x'' = Some (PInt 5)"
    by (simp add: mini_execute[OF a1 a2 a3 src_x5(1) a5] src_x5(2) syntax_error_def
                  except_Exception_caught released_simps map_of_dict_set)
next
  fix s' :: pystate
  assume x: "map_of (global_namespace s') ''x'' = Some (PInt 5)"
  have b1: "map_of [(''code'', JStr ''x + 1'')] ''code'' = Some (JStr ''x + 1'')" by simp
  have b2: "''x + 1'' \<noteq> []" by simp
  have b3: "reset_falsy [(''code'', JStr ''x + 1'')]" by (simp add: reset_falsy_def)
  have b5: "exec_stmts [Expr (Add (Name ''x'') (Lit (PInt 1)))] (capturing s') = (Inr (), capturing s')"
    using x by (simp add: lookup_def capturing_simps add_def as_int_def)
  have b6: "eval_expr (Add (Name ''x'') (Lit (PInt 1))) (after_call s' []) = (Inr (PInt 6), after_call s' [])"
    using x by (simp add: lookup_def after_call_def add_def as_int_def)
  show "handle_call_tool mini ''execute_python'' (Some [(''code'', JStr ''x + 1'')]) s' =
          Some (Inr (result_envelope [] [] (JStr ''6'')), after_call s' [])"
    by (simp add: mini_execute[OF b1 b2 b3 src_x1(1) b5] src_x1(2) released_capturing b6
                  capturing_simps classify_repr result_doc except_Exception_Inr mini_fields repr_6
             del: eval_expr.simps)
qed

text \<open>
  The two calls one after the other, from a fresh session.
\<close>

theorem C5_witness:
  "map_of (global_namespace ((after_call initial [])\<lparr>global_namespace := seeded mini @ [(''x'', PInt 5)]\<rparr>)) ''x''
     = Some (PInt 5) \<and>
   handle_call_tool mini ''execute_python'' (Some [(''code'', JStr ''x = 5'')]) initial =
     Some (Inr (error_envelope mini (PyExc SyntaxError ''invalid syntax'')),
           (after_call initial [])\<lparr>global_namespace := seeded mini @ [(''x'', PInt 5)]\<rparr>) \<and>
   handle_call_tool mini ''execute_python'' (Some [(''code'', JStr ''x + 1'')])
       ((after_call initial [])\<lparr>global_namespace := seeded mini @ [(''x'', PInt 5)]\<rparr>) =
     Some (Inr (result_envelope [] [] (JStr ''6'')),
           after_call ((after_call initial [])\<lparr>global_namespace := seeded mini @ [(''x'', PInt 5)]\<rparr>) [])"
proof -
  let ?S = "(after_call initial [])\<lparr>global_namespace := seeded mini @ [(''x'', PInt 5)]\<rparr>"
  have h: "map_of (global_namespace ?S) ''x'' = Some (PInt 5)"
    by (simp add: seeded_def)
  have first: "handle_call_tool mini ''execute_python'' (Some [(''code'', JStr ''x = 5'')]) initial =
                 Some (Inr (error_envelope mini (PyExc SyntaxError ''invalid syntax'')), ?S)"
    by code_simp
  from C5_binding_persists[of initial] h first show ?thesis by simp
qed

subsection \<open>The namespace after a reset\<close>



text \<open>
  Claim C6 as stated fails for a name that shadowed a built-in.  An earlier execution binds
  \<open>id\<close> to 5; after the reset the call referencing \<open>id\<close> does not fail with the
  undefined-name error: the name is the built-in function again.
\<close>

theorem C6_counterexample:
  "handle_call_tool mini ''execute_python'' (Some [(''code'', JStr ''id = 5'')]) initial =
     Some (Inr (error_envelope mini (PyExc SyntaxError ''invalid syntax'')),
           (after_call initial [])\<lparr>global_namespace := seeded mini @ [(''id'', PInt 5)]\<rparr>) \<and>
   handle_call_tool mini ''execute_python'' (Some [(''code'', JStr ''id'')])
       ((after_call initial [])\<lparr>global_namespace := seeded mini @ [(''id'', PInt 5)]\<rparr>) =
     Some (Inr (result_envelope [] [] (JStr ''5'')),
           after_call ((after_call initial [])\<lparr>global_namespace := seeded mini @ [(''id'', PInt 5)]\<rparr>) []) \<and>
   handle_call_tool mini ''execute_python'' (Some [(''code'', JStr ''id''), (''reset'', JBool True)])
       ((after_call initial [])\<lparr>global_namespace := seeded mini @ [(''id'', PInt 5)]\<rparr>) =
     Some (Inr [TextContent ''Python session reset. All variables cleared.''], after_call initial []) \<and>
   handle_call_tool mini ''execute_python'' (Some [(''code'', JStr ''id'')]) (after_call initial []) =
     Some (Inr (result_envelope [] [] (JStr ''<built-in function id>'')),
           after_call (after_call initial []) [])"
  by code_simp

subsection \<open>Values that are not frames\<close>




subsection \<open>The output channels\<close>

text \<open>
  Claim C8.  For every execute call, when the captured statement run is over the channels
  \<open>sys.stdout\<close> and \<open>sys.stderr\<close> are the ones of before the call, whatever the outcome
  \<open>r\<close> of the run: when it raised, caught by the engine or not, the call ends in that
  state; when it returned, the rest of the call starts from it.
\<close>

theorem C8_channels_restored:
  assumes "map_of args ''code'' = Some code" and "truthy code" and "reset_falsy args"
    and "captured_run rt code s = Some (r, out, err, s1)"
  shows "sys_stdout s1 = sys_stdout s \<and> sys_stderr s1 = sys_stderr s \<and>
         (\<forall>e. r = Inl e \<longrightarrow>
            handle_call_tool rt ''execute_python'' (Some args) s =
              Some (if derives_Exception e then Inr (error_envelope rt e) else Inl e, s1)) \<and>
         (\<forall>u src. r = Inr u \<and> code = JStr src \<longrightarrow>
            handle_call_tool rt ''execute_python'' (Some args) s =
              map_option (except_Exception rt) (after_exec rt src out err s1))"
  using captured_run_restores[OF assms(4)] assms(4)
  by (auto simp: execute_call[OF assms(1-3)] except_Exception_caught except_Exception_uncaught)

text \<open>
  The three exit paths on the fragment: a run that returns, a run that raises \<open>NameError\<close>
  (caught), a run that raises \<open>SystemExit\<close> (not caught).
\<close>

theorem C8_witness:
  "captured_run mini (JStr ''x = 5'') initial =
     Some (Inr (), StringIO 0, StringIO 1,
           initial\<lparr>global_namespace := seeded mini @ [(''x'', PInt 5)],
                   written := [(StringIO 0, []), (StringIO 1, [])], allocated := 2\<rparr>) \<and>
   handle_call_tool mini ''execute_python'' (Some [(''code'', JStr ''y'')]) initial =
     Some (Inr (error_envelope mini (PyExc NameError ''name 'y' is not defined'')),
           initial\<lparr>written := [(StringIO 0, []), (StringIO 1, [])], allocated := 2\<rparr>) \<and>
   handle_call_tool mini ''execute_python'' (Some [(''code'', JStr ''exit(0)'')]) initial =
     Some (Inl (PyExc SystemExit ''0''),
           initial\<lparr>written := [(StringIO 0, []), (StringIO 1, [])], allocated := 2\<rparr>)"
proof -
  have a1: "map_of [(''code'', JStr ''x = 5'')] ''code'' = Some (JStr ''x = 5'')" by simp
  have a2: "truthy (JStr ''x = 5'')" by simp
  have a3: "reset_falsy [(''code'', JStr ''x = 5'')]" by (simp add: reset_falsy_def)
  have a4: "captured_run mini (JStr ''x = 5'') initial =
              Some (Inr (), StringIO 0, StringIO 1,
                    initial\<lparr>global_namespace := seeded mini @ [(''x'', PInt 5)],
                            written := [(StringIO 0, []), (StringIO 1, [])], allocated := 2\<rparr>)"
    by code_simp
  have b1: "map_of [(''code'', JStr ''y'')] ''code'' = Some (JStr ''y'')" by simp
  have b2: "truthy (JStr ''y'')" by simp
  have b3: "reset_falsy [(''code'', JStr ''y'')]" by (simp add: reset_falsy_def)
  have b4: "captured_run mini (JStr ''y'') initial =
              Some (Inl (PyExc NameError ''name 'y' is not defined''), StringIO 0, StringIO 1,
                    initial\<lparr>written := [(StringIO 0, []), (StringIO 1, [])], allocated := 2\<rparr>)"
    by code_simp
  have c1: "map_of [(''code'', JStr ''exit(0)'')] ''code'' = Some (JStr ''exit(0)'')" by simp
  have c2: "truthy (JStr ''exit(0)'')" by simp
  have c3: "reset_falsy [(''code'', JStr ''exit(0)'')]" by (simp add: reset_falsy_def)
  have c4: "captured_run mini (JStr ''exit(0)'') initial =
              Some (Inl (PyExc SystemExit ''0''), StringIO 0, StringIO 1,
                    initial\<lparr>written := [(StringIO 0, []), (StringIO 1, [])], allocated := 2\<rparr>)"
    by code_simp
  from C8_channels_restored[OF a1 a2 a3 a4] C8_channels_restored[OF b1 b2 b3 b4]
    C8_channels_restored[OF c1 c2 c3 c4] a4
  show ?thesis by simp
qed

subsection \<open>The last line is evaluated again\<close>

text \<open>
  Claim C9, as amended.  For every execute request whose last line is the last top-level
  statement of the code, an expression \<open>e\<close> on one line, and on which the statements before
  it complete and its evaluation by the run returns: the run evaluates \<open>e\<close> once, with
  \<open>sys.stdout\<close> naming the first buffer, and the call then evaluates \<open>e\<close> a second time in
  the state the run left, with \<open>sys.stdout\<close> naming the stream of before the call; the
  \<open>output\<close> of the envelope is the text of the buffer at the end of the run, so nothing the
  second evaluation writes is in it.
\<close>

theorem C9_last_line_twice:
  assumes "map_of args ''code'' = Some (JStr src)" and "src \<noteq> []" and "reset_falsy args"
    and "parse_module src = Some (pre @ [Expr e])"
    and "parse_expression (last_line src) = Some e"
    and "exec_stmts pre (capturing s) = (Inr (), sa)"
    and "eval_expr e sa = (Inr v, sb)"
  shows "py_exec mini src (capturing s) = Some (Inr (), sb) \<and>
         sys_stdout sa = StringIO (allocated s) \<and>
         sys_stdout (released s sb) = sys_stdout s \<and>
         (\<forall>w sc. eval_expr e (released s sb) = (Inr w, sc) \<longrightarrow>
            handle_call_tool mini ''execute_python'' (Some args) s =
              Some (except_Exception mini
                (classify mini (result_dict (getvalue sb (StringIO (allocated s)))
                                            (getvalue sb (StringIO (Suc (allocated s))))) w sc))) \<and>
         (\<forall>err sc. eval_expr e (released s sb) = (Inl err, sc) \<longrightarrow>
            handle_call_tool mini ''execute_python'' (Some args) s =
              Some (except_Exception mini (Inl err, sc)))"
proof -
  have run: "exec_stmts (pre @ [Expr e]) (capturing s) = (Inr (), sb)"
    using assms(6,7) by (simp add: exec_stmts_append)
  have "sys_stdout sa = StringIO (allocated s)"
    using exec_channels(2)[of pre "capturing s"] assms(6) by (simp add: capturing_simps)
  moreover have "py_exec mini src (capturing s) = Some (Inr (), sb)"
    using run by (simp add: mini_fields mini_exec_def assms(4))
  ultimately show ?thesis
    by (simp add: mini_execute[OF assms(1-4) run] assms(5) released_simps)
qed

text \<open>
  \<open>print(x)\<close> as last line: the text is printed twice, once into the buffer (the
  \<open>output\<close> of the envelope) and once onto the standard output of the process.
\<close>

theorem C9_witness:
  "handle_call_tool mini ''execute_python'' (Some [(''code'', JStr ''x = 5\<newline>print(x)'')]) initial =
     Some (Inr (result_envelope ''5\<newline>'' [] (JStr ''None'')),
           (after_call initial ''5\<newline>'')
             \<lparr>global_namespace := seeded mini @ [(''x'', PInt 5)],
              written := [(StringIO 0, ''5\<newline>''), (StringIO 1, []), (Stdout, ''5\<newline>'')]\<rparr>)"
proof -
  let ?src = "''x = 5\<newline>print(x)''"
  let ?e = "Call (Name ''print'') (Name ''x'')"
  let ?sa = "(capturing initial)\<lparr>global_namespace := seeded mini @ [(''x'', PInt 5)]\<rparr>"
  let ?sb = "write_stream (StringIO 0) ''5\<newline>'' ?sa"
  let ?sc = "write_stream Stdout ''5\<newline>'' (released initial ?sb)"
  have h1: "map_of [(''code'', JStr ?src)] ''code'' = Some (JStr ?src)" by simp
  have h2: "?src \<noteq> []" by simp
  have h3: "reset_falsy [(''code'', JStr ?src)]" by (simp add: reset_falsy_def)
  have h4: "parse_module ?src = Some ([Assign ''x'' (Lit (PInt 5))] @ [Expr ?e])" by code_simp
  have h5: "parse_expression (last_line ?src) = Some ?e" by code_simp
  have h6: "exec_stmts [Assign ''x'' (Lit (PInt 5))] (capturing initial) = (Inr (), ?sa)" by code_simp
  have h7: "eval_expr ?e ?sa = (Inr PNone, ?sb)" by code_simp
  have h8: "eval_expr ?e (released initial ?sb) = (Inr PNone, ?sc)" by code_simp
  have h9: "except_Exception mini
              (classify mini (result_dict (getvalue ?sb (StringIO (allocated initial)))
                                          (getvalue ?sb (StringIO (Suc (allocated initial))))) PNone ?sc) =
            (Inr (result_envelope ''5\<newline>'' [] (JStr ''None'')),
             (after_call initial ''5\<newline>'')
               \<lparr>global_namespace := seeded mini @ [(''x'', PInt 5)],
                written := [(StringIO 0, ''5\<newline>''), (StringIO 1, []), (Stdout, ''5\<newline>'')]\<rparr>)"
    by code_simp
  from C9_last_line_twice[OF h1 h2 h3 h4 h5 h6 h7] h8 h9 show ?thesis by simp
qed

text \<open>
  Claim C9 as stated fails: a last line inside a block that the run does not enter is
  evaluated once only, by the re-evaluation (the text reaches the standard output of the
  process and no buffer); and when an earlier statement raises, the last line is not
  evaluated at all.
\<close>

theorem C9_counterexample:
  "handle_call_tool mini ''execute_python'' (Some [(''code'', JStr ''if 0:\<newline>    print(7)'')]) initial =
     Some (Inr (result_envelope [] [] (JStr ''None'')),
           (after_call initial [])\<lparr>written := [(StringIO 0, []), (StringIO 1, []), (Stdout, ''7\<newline>'')]\<rparr>) \<and>
   handle_call_tool mini ''execute_python'' (Some [(''code'', JStr ''y\<newline>print(7)'')]) initial =
     Some (Inr (error_envelope mini (PyExc NameError ''name 'y' is not defined'')), after_call initial [])"
  by code_simp

subsection \<open>No rollback\<close>

text \<open>
  Claim C10.  When the run of the submitted code raises, or the re-evaluation of the last
  line raises after a run that returned, the call returns the error envelope and ends in the
  state the interpreter stopped in, channels put back: nothing the run did to the namespace
  is undone.  On the fragment: when the statements \<open>pre\<close> have completed and the next
  statement \<open>st\<close> raises, the call ends in the state \<open>st\<close> stopped in, and for a one-line
  \<open>st\<close> the namespace at return is the one the completed statements produced.
\<close>

theorem C10_no_rollback:
  assumes "map_of args ''code'' = Some (JStr src)" and "src \<noteq> []" and "reset_falsy args"
  shows "(\<forall>e s'. py_exec rt src (capturing s) = Some (Inl e, s') \<and> derives_Exception e \<longrightarrow>
            handle_call_tool rt ''execute_python'' (Some args) s =
              Some (Inr (error_envelope rt e), released s s') \<and>
            global_namespace (released s s') = global_namespace s') \<and>
         (\<forall>u s' e s''. py_exec rt src (capturing s) = Some (Inr u, s') \<and>
            py_eval rt (last_line src) (released s s') = Some (Inl e, s'') \<and> derives_Exception e \<longrightarrow>
            handle_call_tool rt ''execute_python'' (Some args) s = Some (Inr (error_envelope rt e), s'')) \<and>
         (\<forall>pre st rest sa e sb. parse_module src = Some (pre @ st # rest) \<and>
            exec_stmts pre (capturing s) = (Inr (), sa) \<and> exec_stmt st sa = (Inl e, sb) \<and>
            derives_Exception e \<longrightarrow>
            handle_call_tool mini ''execute_python'' (Some args) s =
              Some (Inr (error_envelope mini e), released s sb) \<and>
            (\<forall>x ex. st = Assign x ex \<or> st = Expr ex \<longrightarrow>
               global_namespace (released s sb) = global_namespace sa))"
proof (intro conjI allI impI)
  fix e s'
  assume "py_exec rt src (capturing s) = Some (Inl e, s') \<and> derives_Exception e"
  then show "handle_call_tool rt ''execute_python'' (Some args) s =
               Some (Inr (error_envelope rt e), released s s')"
    using assms(2)
    by (simp add: execute_call[OF assms(1) _ assms(3)] captured_run_exec exec_code_def
                  except_Exception_caught)
next
  fix e s'
  show "global_namespace (released s s') = global_namespace s'"
    by (simp add: released_simps)
next
  fix u s' e s''
  assume "py_exec rt src (capturing s) = Some (Inr u, s') \<and>
          py_eval rt (last_line src) (released s s') = Some (Inl e, s'') \<and> derives_Exception e"
  then show "handle_call_tool rt ''execute_python'' (Some args) s = Some (Inr (error_envelope rt e), s'')"
    using assms(2)
    by (simp add: execute_call[OF assms(1) _ assms(3)] captured_run_exec exec_code_def
                  except_Exception_caught after_exec_def Let_def)
next
  fix pre st rest sa e sb
  assume h: "parse_module src = Some (pre @ st # rest) \<and>
             exec_stmts pre (capturing s) = (Inr (), sa) \<and> exec_stmt st sa = (Inl e, sb) \<and>
             derives_Exception e"
  then have "exec_stmts (pre @ st # rest) (capturing s) = (Inl e, sb)"
    by (simp add: exec_stmts_append)
  with h show "handle_call_tool mini ''execute_python'' (Some args) s =
                 Some (Inr (error_envelope mini e), released s sb)"
    using assms(2)
    by (simp add: execute_call[OF assms(1) _ assms(3)] mini_captured_run except_Exception_caught)
next
  fix pre st rest sa e sb x ex
  assume h: "parse_module src = Some (pre @ st # rest) \<and>
             exec_stmts pre (capturing s) = (Inr (), sa) \<and> exec_stmt st sa = (Inl e, sb) \<and>
             derives_Exception e"
    and st: "st = Assign x ex \<or> st = Expr ex"
  from h have "exec_stmt st sa = (Inl e, sb)" by simp
  from failing_simple_statement[OF this st]
  show "global_namespace (released s sb) = global_namespace sa"
    by (simp add: released_simps)
qed

text \<open>
  A run that stops at its second line keeps the binding of the first, and a later call
  sees it; so does a run whose last line is an assignment.
\<close>

theorem C10_witness:
  "handle_call_tool mini ''execute_python'' (Some [(''code'', JStr ''x = 5\<newline>y'')]) initial =
     Some (Inr (error_envelope mini (PyExc NameError ''name 'y' is not defined'')),
           (after_call initial [])\<lparr>global_namespace := seeded mini @ [(''x'', PInt 5)]\<rparr>) \<and>
   handle_call_tool mini ''execute_python'' (Some [(''code'', JStr ''x'')])
       ((after_call initial [])\<lparr>global_namespace := seeded mini @ [(''x'', PInt 5)]\<rparr>) =
     Some (Inr (result_envelope [] [] (JStr ''5'')),
           after_call ((after_call initial [])\<lparr>global_namespace := seeded mini @ [(''x'', PInt 5)]\<rparr>) []) \<and>
   handle_call_tool mini ''execute_python'' (Some [(''code'', JStr ''x = 5'')]) initial =
     Some (Inr (error_envelope mini (PyExc SyntaxError ''invalid syntax'')),
           (after_call initial [])\<lparr>global_namespace := seeded mini @ [(''x'', PInt 5)]\<rparr>)"
proof -
  let ?S = "(after_call initial [])\<lparr>global_namespace := seeded mini @ [(''x'', PInt 5)]\<rparr>"
  let ?C = "(capturing initial)\<lparr>global_namespace := seeded mini @ [(''x'', PInt 5)]\<rparr>"
  have a1: "map_of [(''code'', JStr ''x = 5\<newline>y'')] ''code'' = Some (JStr ''x = 5\<newline>y'')" by simp
  have a2: "''x = 5\<newline>y'' \<noteq> []" by simp
  have a3: "reset_falsy [(''code'', JStr ''x = 5\<newline>y'')]" by (simp add: reset_falsy_def)
  have a4: "parse_module ''x = 5\<newline>y'' = Some ([Assign ''x'' (Lit (PInt 5))] @ Expr (Name ''y'') # [])"
    by code_simp
  have a5: "exec_stmts [Assign ''x'' (Lit (PInt 5))] (capturing initial) = (Inr (), ?C)"
    by code_simp
  have a6: "exec_stmt (Expr (Name ''y'')) ?C = (Inl (PyExc NameError ''name 'y' is not defined''), ?C)"
    by code_simp
  have a7: "derives_Exception (PyExc NameError ''name 'y' is not defined'')" by simp
  have a8: "released initial ?C = ?S" by code_simp
  have b1: "map_of [(''code'', JStr ''x = 5'')] ''code'' = Some (JStr ''x = 5'')" by simp
  have b2: "''x = 5'' \<noteq> []" by simp
  have b3: "reset_falsy [(''code'', JStr ''x = 5'')]" by (simp add: reset_falsy_def)
  have b4: "py_exec mini ''x = 5'' (capturing initial) = Some (Inr (), ?C)" by code_simp
  have b5: "py_eval mini (last_line ''x = 5'') (released initial ?C) =
              Some (Inl (PyExc SyntaxError ''invalid syntax''), ?S)"
    by code_simp
  have b6: "derives_Exception (PyExc SyntaxError ''invalid syntax'')" by simp
  have next_call: "handle_call_tool mini ''execute_python'' (Some [(''code'', JStr ''x'')]) ?S =
                     Some (Inr (result_envelope [] [] (JStr ''5'')), after_call ?S [])"
    by code_simp
  from C10_no_rollback[OF a1 a2 a3, of mini initial] a4 a5 a6 a7 a8
  have "handle_call_tool mini ''execute_python'' (Some [(''code'', JStr ''x = 5\<newline>y'')]) initial =
          Some (Inr (error_envelope mini (PyExc NameError ''name 'y' is not defined'')), ?S)"
    by metis
  moreover from C10_no_rollback[OF b1 b2 b3, of mini initial] b4 b5 b6
  have "handle_call_tool mini ''execute_python'' (Some [(''code'', JStr ''x = 5'')]) initial =
          Some (Inr (error_envelope mini (PyExc SyntaxError ''invalid syntax'')), ?S)"
    by metis
  ultimately show ?thesis using next_call by simp
qed

end
